theory Spec2Isabelle
  imports Main "HOL-Library.Sublist"
begin

text \<open>
  The error analysis of \<open>recommendation_engine_v3.py\<close>: the classification of an error
  log (\<open>ErrorLogAnalyzer\<close>), the analysis of the code around the error
  (\<open>StaticCodeAnalysis\<close>), the catalog of rules (\<open>RuleBasedSystem\<close>), the heuristic
  recommender (\<open>LanguageModelAnalyzer\<close>) and the pipeline \<open>analyze_error\<close> that combines
  them. A Python exception is a value \<open>Inl\<close> of a sum type. The formatting of the report
  and the call of the text generation service in \<open>debugg\<close> are not part of the model.
\<close>

section \<open>Characters and strings of the Python source\<close>

text \<open>
  A Python \<open>str\<close> is modelled as a \<open>string\<close> with one \<open>char\<close> per code point, so the
  model covers the texts whose code points are below 256. The character classes below are
  those of CPython on that range: \<open>str.isspace\<close> (also the class \<^verbatim>\<open>\s\<close> of \<open>re\<close>), the
  decimal digits (the class \<^verbatim>\<open>\d\<close>), \<open>str.isdigit\<close> (which also accepts the superscript
  digits 178, 179 and 185), the word characters (the class \<^verbatim>\<open>\w\<close>: \<open>str.isalnum\<close> or the
  underscore) and \<open>str.lower\<close>.
\<close>

definition py_isspace :: "char \<Rightarrow> bool" where
  "py_isspace c = (let n = (of_char c :: nat) in
     (9 \<le> n \<and> n \<le> 13) \<or> (28 \<le> n \<and> n \<le> 32) \<or> n = 133 \<or> n = 160)"

definition py_isdecimal :: "char \<Rightarrow> bool" where
  "py_isdecimal c = (let n = (of_char c :: nat) in 48 \<le> n \<and> n \<le> 57)"

definition py_isdigit_char :: "char \<Rightarrow> bool" where
  "py_isdigit_char c = (let n = (of_char c :: nat) in
     (48 \<le> n \<and> n \<le> 57) \<or> n = 178 \<or> n = 179 \<or> n = 185)"

definition re_word :: "char \<Rightarrow> bool" where
  "re_word c = (let n = (of_char c :: nat) in
     (48 \<le> n \<and> n \<le> 57) \<or> (65 \<le> n \<and> n \<le> 90) \<or> n = 95 \<or> (97 \<le> n \<and> n \<le> 122)
     \<or> n = 170 \<or> n = 178 \<or> n = 179 \<or> n = 181 \<or> n = 185 \<or> n = 186
     \<or> (188 \<le> n \<and> n \<le> 190) \<or> (192 \<le> n \<and> n \<le> 214) \<or> (216 \<le> n \<and> n \<le> 246)
     \<or> 248 \<le> n)"

definition py_lower_char :: "char \<Rightarrow> char" where
  "py_lower_char c = (let n = (of_char c :: nat) in
     if (65 \<le> n \<and> n \<le> 90) \<or> (192 \<le> n \<and> n \<le> 222 \<and> n \<noteq> 215)
     then char_of (n + 32) else c)"

definition newline :: char where
  "newline = CHR 0x0A"

text \<open>\<open>s.lower()\<close> and \<open>s.strip()\<close>.\<close>

definition py_lower :: "string \<Rightarrow> string" where
  "py_lower s = map py_lower_char s"

definition py_strip :: "string \<Rightarrow> string" where
  "py_strip s = rev (dropWhile py_isspace (rev (dropWhile py_isspace s)))"

text \<open>\<open>s.isdigit()\<close>: every character is a digit and there is at least one.\<close>

definition py_isdigit :: "string \<Rightarrow> bool" where
  "py_isdigit s = (s \<noteq> [] \<and> list_all py_isdigit_char s)"

text \<open>
  \<open>int(s)\<close> on the strings that reach it here (a group of \<^verbatim>\<open>\d+\<close>, or a group that
  passed \<open>isdigit\<close>): the decimal value when every character is one of 0 to 9, and
  \<open>ValueError\<close> (the value \<open>None\<close>) on a superscript digit. Python's integers are
  unbounded; the interpreter's configurable limit on the number of digits is not modelled.
\<close>

definition digit_val :: "char \<Rightarrow> int" where
  "digit_val c = int (of_char c) - 48"

definition decimal_value :: "string \<Rightarrow> int" where
  "decimal_value s = foldl (\<lambda>acc c. 10 * acc + digit_val c) 0 s"

definition py_int :: "string \<Rightarrow> int option" where
  "py_int s = (if s \<noteq> [] \<and> list_all py_isdecimal s then Some (decimal_value s) else None)"

text \<open>\<open>str(n)\<close> for an integer, as the f-strings of the source render a line number.\<close>

fun dec_digits :: "nat \<Rightarrow> string" where
  "dec_digits n = (if n < 10 then [char_of (48 + n)]
                   else dec_digits (n div 10) @ [char_of (48 + n mod 10)])"

definition py_str_int :: "int \<Rightarrow> string" where
  "py_str_int n = (if n < 0 then CHR ''-'' # dec_digits (nat (- n)) else dec_digits (nat n))"

text \<open>\<open>s.split('\n')\<close> (never empty) and \<open>'\n'.join(xs)\<close>.\<close>

fun split_nl :: "string \<Rightarrow> string list" where
  "split_nl [] = [[]]"
| "split_nl (c # cs) =
     (if c = newline then [] # split_nl cs
      else (case split_nl cs of [] \<Rightarrow> [[c]] | l # ls \<Rightarrow> (c # l) # ls))"

fun join_nl :: "string list \<Rightarrow> string" where
  "join_nl [] = []"
| "join_nl [x] = x"
| "join_nl (x # y # ys) = x @ newline # join_nl (y # ys)"

text \<open>\<open>needle in hay\<close> on strings.\<close>

fun starts_with :: "string \<Rightarrow> string \<Rightarrow> bool" where
  "starts_with [] hay = True"
| "starts_with (n # ns) [] = False"
| "starts_with (n # ns) (h # hs) = (n = h \<and> starts_with ns hs)"

fun contains :: "string \<Rightarrow> string \<Rightarrow> bool" where
  "contains needle [] = starts_with needle []"
| "contains needle (h # hs) = (starts_with needle (h # hs) \<or> contains needle hs)"

text \<open>
  \<open>xs[start:end]\<close> with Python's treatment of the bounds: a negative bound counts from
  the end, and both are clipped to the list.
\<close>

definition slice_bound :: "nat \<Rightarrow> int \<Rightarrow> nat" where
  "slice_bound len i = (if i < 0 then nat (max 0 (int len + i)) else min len (nat i))"

definition py_slice :: "'a list \<Rightarrow> int \<Rightarrow> int \<Rightarrow> 'a list" where
  "py_slice xs start end =
     (let s = slice_bound (length xs) start; e = slice_bound (length xs) end
      in take (e - s) (drop s xs))"

datatype py_error = ValueError | IndexError

section \<open>The regular expressions of the source\<close>

text \<open>
  The patterns of the source use literal characters, the dot, the classes \<^verbatim>\<open>\w\<close>,
  \<^verbatim>\<open>\d\<close> and \<^verbatim>\<open>\s\<close>, the greedy quantifiers \<open>+\<close> and \<open>*\<close> on one character,
  groups that are neither nested nor repeated, and \<open>$\<close> under \<open>re.MULTILINE\<close>. A pattern is
  the list of its items. \<open>rx_from\<close> matches a pattern at the start of a text the way the
  backtracking matcher of \<open>re\<close> does: a quantifier first takes as many characters as it
  can and gives them back one at a time. It returns the captured groups and the text left
  after the match. The flag \<open>ic\<close> is \<open>re.IGNORECASE\<close>.
\<close>

datatype atom = Ch char | Dot | Word | Digit | Space

datatype item = One atom | Plus atom | Star atom | Open | Close | Eol

fun atom_ok :: "bool \<Rightarrow> atom \<Rightarrow> char \<Rightarrow> bool" where
  "atom_ok ic (Ch p) c = (if ic then py_lower_char c = py_lower_char p else c = p)"
| "atom_ok ic Dot c = (c \<noteq> newline)"
| "atom_ok ic Word c = re_word c"
| "atom_ok ic Digit c = py_isdecimal c"
| "atom_ok ic Space c = py_isspace c"

fun rx_from :: "bool \<Rightarrow> item list \<Rightarrow> string \<Rightarrow> string \<Rightarrow> string list
                  \<Rightarrow> (string list \<times> string) option" where
  "rx_from ic [] s mark gs = Some (gs, s)"
| "rx_from ic (Open # p) s mark gs = rx_from ic p s s gs"
| "rx_from ic (Close # p) s mark gs =
     rx_from ic p s mark (gs @ [take (length mark - length s) mark])"
| "rx_from ic (Eol # p) [] mark gs = rx_from ic p [] mark gs"
| "rx_from ic (Eol # p) (c # s) mark gs =
     (if c = newline then rx_from ic p (c # s) mark gs else None)"
| "rx_from ic (One a # p) [] mark gs = None"
| "rx_from ic (One a # p) (c # s) mark gs =
     (if atom_ok ic a c then rx_from ic p s mark gs else None)"
| "rx_from ic (Plus a # p) [] mark gs = None"
| "rx_from ic (Plus a # p) (c # s) mark gs =
     (if atom_ok ic a c then rx_from ic (Star a # p) s mark gs else None)"
| "rx_from ic (Star a # p) [] mark gs = rx_from ic p [] mark gs"
| "rx_from ic (Star a # p) (c # s) mark gs =
     (if atom_ok ic a c
      then (case rx_from ic (Star a # p) s mark gs of
              Some r \<Rightarrow> Some r
            | None \<Rightarrow> rx_from ic p (c # s) mark gs)
      else rx_from ic p (c # s) mark gs)"

text \<open>\<open>re.search\<close>: the match at the leftmost position that has one.\<close>

fun rx_search :: "bool \<Rightarrow> item list \<Rightarrow> string \<Rightarrow> (string list \<times> string) option" where
  "rx_search ic p [] = rx_from ic p [] [] []"
| "rx_search ic p (c # s) =
     (case rx_from ic p (c # s) (c # s) [] of
        Some r \<Rightarrow> Some r
      | None \<Rightarrow> rx_search ic p s)"

text \<open>
  \<open>re.findall\<close> for a pattern with one group: the group of every match, from left to
  right, each search resuming where the last match ended (\<open>skip\<close> counts the characters
  of the last match that are still to be passed).
\<close>

fun rx_findall_from :: "item list \<Rightarrow> nat \<Rightarrow> string \<Rightarrow> string list" where
  "rx_findall_from p skip [] =
     (if skip = 0 then (case rx_from False p [] [] [] of
                          Some (gs, rest) \<Rightarrow> take 1 gs | None \<Rightarrow> [])
      else [])"
| "rx_findall_from p (Suc k) (c # s) = rx_findall_from p k s"
| "rx_findall_from p 0 (c # s) =
     (case rx_from False p (c # s) (c # s) [] of
        None \<Rightarrow> rx_findall_from p 0 s
      | Some (gs, rest) \<Rightarrow> take 1 gs @ rx_findall_from p (length s - length rest) s)"

definition rx_findall :: "item list \<Rightarrow> string \<Rightarrow> string list" where
  "rx_findall p s = rx_findall_from p 0 s"

text \<open>
  Whether a pattern has a match at the start of a text, whatever the groups: the same
  choices as \<open>rx_from\<close>, without their order.
\<close>

fun accepts :: "bool \<Rightarrow> item list \<Rightarrow> string \<Rightarrow> bool" where
  "accepts ic [] s = True"
| "accepts ic (Open # p) s = accepts ic p s"
| "accepts ic (Close # p) s = accepts ic p s"
| "accepts ic (Eol # p) [] = accepts ic p []"
| "accepts ic (Eol # p) (c # s) = (c = newline \<and> accepts ic p (c # s))"
| "accepts ic (One a # p) [] = False"
| "accepts ic (One a # p) (c # s) = (atom_ok ic a c \<and> accepts ic p s)"
| "accepts ic (Plus a # p) [] = False"
| "accepts ic (Plus a # p) (c # s) = (atom_ok ic a c \<and> accepts ic (Star a # p) s)"
| "accepts ic (Star a # p) [] = accepts ic p []"
| "accepts ic (Star a # p) (c # s) =
     ((atom_ok ic a c \<and> accepts ic (Star a # p) s) \<or> accepts ic p (c # s))"

text \<open>A run of literal characters, and a group.\<close>

definition lit :: "string \<Rightarrow> item list" where
  "lit s = map (\<lambda>c. One (Ch c)) s"

definition grp :: "item list \<Rightarrow> item list" where
  "grp p = Open # p @ [Close]"

section \<open>The data model\<close>

datatype ErrorSeverity = CRITICAL | HIGH | MEDIUM | LOW

datatype ErrorClassification = SYNTAX | RUNTIME | LOGICAL | SEMANTIC | UNKNOWN

text \<open>\<open>ErrorClassification(value)\<close>: the member with that value, \<open>ValueError\<close> without one.\<close>

definition ErrorClassification_of :: "string \<Rightarrow> ErrorClassification option" where
  "ErrorClassification_of v =
     (if v = ''syntax'' then Some SYNTAX
      else if v = ''runtime'' then Some RUNTIME
      else if v = ''logical'' then Some LOGICAL
      else if v = ''semantic'' then Some SEMANTIC
      else if v = ''unknown'' then Some UNKNOWN
      else None)"

record ErrorInfo =
  error_type :: string
  line_number :: "int option"
  variables :: "string list"
  full_message :: string
  classification :: ErrorClassification

record CodeInfo =
  language :: string
  error_block :: string
  error_lines :: "string list"
  intent :: string

text \<open>
  A fix is the dictionary with the keys \<open>title\<close>, \<open>code\<close> and \<open>explanation\<close>, kept as
  the list of its items.
\<close>

type_synonym fix_dict = "(string \<times> string) list"

record RecommendationResult =
  explanation :: string
  severity :: ErrorSeverity
  impact :: string
  proposed_fixes :: "fix_dict list"
  best_practices :: "string list"
  priority_reasoning :: string

text \<open>
  The dictionary that a catalog rule is and that \<open>analyze_complex_error\<close> returns, with
  the keys \<open>explanation\<close>, \<open>severity\<close>, \<open>impact\<close>, \<open>fixes\<close> and \<open>best_practices\<close>.
\<close>

record Recommendation =
  rec_explanation :: string
  rec_severity :: ErrorSeverity
  rec_impact :: string
  rec_fixes :: "fix_dict list"
  rec_best_practices :: "string list"

text \<open>
  A dictionary display keeps its keys in the order of their first occurrence, and a key
  written twice keeps its first place with its last value.
\<close>

fun dict_set :: "'k \<Rightarrow> 'v \<Rightarrow> ('k \<times> 'v) list \<Rightarrow> ('k \<times> 'v) list" where
  "dict_set k v [] = [(k, v)]"
| "dict_set k v ((k', v') # d) = (if k' = k then (k', v) # d else (k', v') # dict_set k v d)"

definition py_dict :: "('k \<times> 'v) list \<Rightarrow> ('k \<times> 'v) list" where
  "py_dict kvs = foldl (\<lambda>d (k, v). dict_set k v d) [] kvs"

section \<open>ErrorLogAnalyzer\<close>

definition quote :: char where
  "quote = CHR 0x27"

definition pat_error_at_line :: "item list" where
  "pat_error_at_line = grp (Plus Word # lit ''Error'') @ lit '': '' @ grp [Plus Dot]
     @ lit '' at line '' @ grp [Plus Digit]"

definition pat_error :: "item list" where
  "pat_error = grp (Plus Word # lit ''Error'') @ lit '': '' @ grp [Plus Dot]"

definition pat_exception :: "item list" where
  "pat_exception = grp (Plus Word # lit ''Exception'') @ lit '': '' @ grp [Plus Dot]"

definition pat_syntax_error :: "item list" where
  "pat_syntax_error = lit ''SyntaxError: '' @ grp [Plus Dot] @ lit '' at line ''
     @ grp [Plus Digit]"

definition pat_traceback :: "item list" where
  \<open>pat_traceback = lit ''File "'' @ grp [Plus Dot] @ lit ''", line '' @ grp [Plus Digit]
     @ lit '', in '' @ grp [Plus Dot] @ [One (Ch newline), Star Space] @ grp [Plus Dot]
     @ [One (Ch newline)] @ grp (Plus Word # lit ''Error'') @ lit '': '' @ grp [Plus Dot]\<close>

definition pat_json :: "item list" where
  "pat_json = lit ''json.decoder.JSONDecodeError: '' @ grp [Plus Dot]"

definition pat_java_thread :: "item list" where
  \<open>pat_java_thread = lit ''Exception in thread "'' @ grp [Plus Dot] @ lit ''" ''
     @ grp (Plus Word # lit ''Exception'') @ lit '': '' @ grp [Plus Dot] @ lit '' at ''
     @ grp [Plus Dot] @ lit '':'' @ grp [Plus Digit]\<close>

definition pat_reference_error :: "item list" where
  "pat_reference_error = lit ''ReferenceError: '' @ grp [Plus Dot] @ lit '' is not defined''"

definition pat_type_error :: "item list" where
  "pat_type_error = lit ''TypeError: '' @ grp [Plus Dot]"

definition pat_c_error :: "item list" where
  "pat_c_error = lit ''error: '' @ grp [Plus Dot] @ lit '' at line '' @ grp [Plus Digit]"

definition pat_segfault :: "item list" where
  "pat_segfault = lit ''segmentation fault''"

text \<open>
  \<open>self.error_patterns\<close>, with the thirteen items of the display in the order in which the
  source writes them. Two patterns are written twice.
\<close>

definition error_patterns_items :: "(item list \<times> string \<times> string) list" where
  "error_patterns_items =
     [(pat_error_at_line, ''python'', ''runtime''),
      (pat_error, ''python'', ''runtime''),
      (pat_exception, ''python'', ''runtime''),
      (pat_syntax_error, ''python'', ''syntax''),
      (pat_traceback, ''python'', ''runtime''),
      (pat_json, ''python'', ''runtime''),
      (pat_java_thread, ''java'', ''runtime''),
      (pat_exception, ''java'', ''runtime''),
      (pat_error_at_line, ''javascript'', ''runtime''),
      (pat_reference_error, ''javascript'', ''runtime''),
      (pat_type_error, ''javascript'', ''runtime''),
      (pat_c_error, ''c'', ''syntax''),
      (pat_segfault, ''c'', ''runtime'')]"

definition error_patterns :: "(item list \<times> string \<times> string) list" where
  "error_patterns = py_dict error_patterns_items"

definition var_patterns :: "item list list" where
  "var_patterns =
     [One (Ch quote) # grp [Plus Word] @ One (Ch quote) # lit '' is not defined'',
      One (Ch quote) # grp [Plus Word] @ One (Ch quote) # lit '' has no attribute'',
      lit ''cannot access '' @ One (Ch quote) # grp [Plus Word] @ [One (Ch quote)],
      lit ''variable '' @ One (Ch quote) # grp [Plus Word] @ [One (Ch quote)],
      lit ''undefined variable '' @ One (Ch quote) # grp [Plus Word] @ [One (Ch quote)]]"

text \<open>
  \<open>_extract_variables\<close> ends with \<open>list(set(variables))\<close>, whose order Python leaves to
  the hashes of the strings. The function \<open>set_order\<close> stands for that conversion and is a
  parameter of everything that depends on it.
\<close>

definition extract_variables :: "(string list \<Rightarrow> string list) \<Rightarrow> string \<Rightarrow> string list" where
  "extract_variables set_order error_log =
     set_order (concat (map (\<lambda>pattern. rx_findall pattern error_log) var_patterns))"

definition line_patterns :: "item list list" where
  "line_patterns =
     [lit ''line '' @ grp [Plus Digit],
      lit '':'' @ grp [Plus Digit] @ lit '':'',
      lit ''at '' @ grp [Plus Digit]]"

text \<open>\<open>match.group(1)\<close>, which the patterns of \<open>line_patterns\<close> always have.\<close>

fun extract_line_number_loop :: "item list list \<Rightarrow> string \<Rightarrow> py_error + int option" where
  "extract_line_number_loop [] error_log = Inr None"
| "extract_line_number_loop (pattern # rest) error_log =
     (case rx_search False pattern error_log of
        None \<Rightarrow> extract_line_number_loop rest error_log
      | Some (groups, after) \<Rightarrow>
          (case groups of
             [] \<Rightarrow> Inl IndexError
           | g # gs \<Rightarrow> (case py_int g of None \<Rightarrow> Inl ValueError | Some n \<Rightarrow> Inr (Some n))))"

definition extract_line_number :: "string \<Rightarrow> py_error + int option" where
  "extract_line_number error_log = extract_line_number_loop line_patterns error_log"

text \<open>The loop of \<open>analyze\<close> over the groups of the match, looking for a line number.\<close>

fun find_line_number :: "string list \<Rightarrow> py_error + int option" where
  "find_line_number [] = Inr None"
| "find_line_number (g # gs) =
     (if g \<noteq> [] \<and> py_isdigit g
      then (case py_int g of None \<Rightarrow> Inl ValueError | Some n \<Rightarrow> Inr (Some n))
      else find_line_number gs)"

text \<open>
  The loop of \<open>analyze\<close> over the patterns, on the stripped log, and after it the
  fallback for a log that no pattern matches.
\<close>

fun scan_patterns :: "(string list \<Rightarrow> string list) \<Rightarrow> (item list \<times> string \<times> string) list
                        \<Rightarrow> string \<Rightarrow> py_error + ErrorInfo" where
  "scan_patterns set_order [] error_log =
     (case extract_line_number error_log of
        Inl e \<Rightarrow> Inl e
      | Inr ln \<Rightarrow>
          Inr \<lparr>error_type = ''UnknownError'',
               line_number = ln,
               variables = extract_variables set_order error_log,
               full_message = error_log,
               classification = UNKNOWN\<rparr>)"
| "scan_patterns set_order ((pattern, lang, cls) # rest) error_log =
     (case rx_search True pattern error_log of
        None \<Rightarrow> scan_patterns set_order rest error_log
      | Some (groups, after) \<Rightarrow>
          (case find_line_number groups of
             Inl e \<Rightarrow> Inl e
           | Inr ln \<Rightarrow>
               (case ErrorClassification_of cls of
                  None \<Rightarrow> Inl ValueError
                | Some c \<Rightarrow>
                    Inr \<lparr>error_type = (case groups of [] \<Rightarrow> ''UnknownError'' | g # gs \<Rightarrow> g),
                         line_number = ln,
                         variables = extract_variables set_order error_log,
                         full_message = error_log,
                         classification = c\<rparr>)))"

definition ErrorLogAnalyzer_analyze :: "(string list \<Rightarrow> string list) \<Rightarrow> string
                                           \<Rightarrow> py_error + ErrorInfo" where
  "ErrorLogAnalyzer_analyze set_order error_log =
     scan_patterns set_order error_patterns (py_strip error_log)"

section \<open>StaticCodeAnalysis\<close>

definition language_patterns :: "(string \<times> item list list) list" where
  "language_patterns = py_dict
     [(''python'', [lit ''def'' @ [Plus Space, Plus Word],
                    lit ''import'' @ [Plus Space, Plus Word],
                    lit ''print'' @ [Star Space] @ lit ''('',
                    lit '':'' @ [Star Space, Eol]]),
      (''java'', [lit ''public'' @ [Plus Space] @ lit ''class'',
                  lit ''System.out.print'',
                  lit ''public'' @ [Plus Space] @ lit ''static'' @ [Plus Space] @ lit ''void''
                    @ [Plus Space] @ lit ''main'']),
      (''javascript'', [lit ''function'' @ [Plus Space, Plus Word],
                        lit ''console.log'',
                        lit ''var'' @ [Plus Space, Plus Word],
                        lit ''let'' @ [Plus Space, Plus Word]]),
      (''c'', [lit ''#include'', lit ''int'' @ [Plus Space] @ lit ''main'', lit ''printf'']),
      (''cpp'', [lit ''#include'', lit ''std::'', lit ''cout'' @ [Star Space] @ lit ''<<''])]"

fun detect_language_loop :: "(string \<times> item list list) list \<Rightarrow> string \<Rightarrow> string" where
  "detect_language_loop [] code = ''unknown''"
| "detect_language_loop ((lang, patterns) # rest) code =
     (let matches = length (filter (\<lambda>pattern. rx_search False pattern code \<noteq> None) patterns)
      in if matches \<ge> 1 then lang else detect_language_loop rest code)"

definition detect_language :: "string \<Rightarrow> string" where
  "detect_language code = detect_language_loop language_patterns code"

text \<open>\<open>not line_number\<close>: the line number is \<open>None\<close> or zero.\<close>

definition no_line :: "int option \<Rightarrow> bool" where
  "no_line ln = (case ln of None \<Rightarrow> True | Some n \<Rightarrow> n = 0)"

definition extract_error_lines :: "string \<Rightarrow> int option \<Rightarrow> py_error + string list" where
  "extract_error_lines code ln =
     (if no_line ln
      then (case split_nl code of [] \<Rightarrow> Inl IndexError | l # ls \<Rightarrow> Inr [l])
      else (let lines = split_nl code; n = the ln
            in if n \<le> int (length lines)
               then (let start = max 0 (n - 2); end = min (int (length lines)) (n + 1)
                     in Inr (py_slice lines start end))
               else Inr []))"

definition block_keywords :: "string list" where
  "block_keywords = [''def '', ''class '', ''for '', ''while '', ''if '']"

definition has_block_keyword :: "string \<Rightarrow> bool" where
  "has_block_keyword line = list_ex (\<lambda>keyword. contains keyword line) block_keywords"

text \<open>
  The backward loop of \<open>_identify_error_block\<close>, \<open>for i in range(start_line, -1, -1)\<close>:
  called at \<open>i\<close> it returns the value of \<open>start_line\<close> after the loop, where
  \<open>start_line\<close> is the value before it. \<open>lines[i]\<close> raises outside the list.
\<close>

fun block_start :: "string list \<Rightarrow> nat \<Rightarrow> nat \<Rightarrow> py_error + nat" where
  "block_start lines start_line 0 =
     (if 0 < length lines
      then (if has_block_keyword (py_strip (lines ! 0)) then Inr 0 else Inr start_line)
      else Inl IndexError)"
| "block_start lines start_line (Suc i) =
     (if Suc i < length lines
      then (if has_block_keyword (py_strip (lines ! Suc i)) then Inr (Suc i)
            else block_start lines start_line i)
      else Inl IndexError)"

definition identify_error_block :: "string \<Rightarrow> int option \<Rightarrow> py_error + string" where
  "identify_error_block code ln =
     (if no_line ln then Inr (take 200 code)
      else (let lines = split_nl code; n = the ln
            in if n \<le> int (length lines)
               then (let start_line = nat (max 0 (n - 1))
                     in case block_start lines start_line start_line of
                          Inl e \<Rightarrow> Inl e
                        | Inr start \<Rightarrow>
                            (let end_line = min (int (length lines)) (n + 5)
                             in Inr (join_nl (py_slice lines (int start) end_line))))
               else Inr code))"

definition determine_code_intent :: "string \<Rightarrow> string \<Rightarrow> string" where
  "determine_code_intent code_block lang =
     (let code_lower = py_strip (py_lower code_block)
      in if contains ''def '' code_lower \<or> contains ''function '' code_lower
           then ''function definition''
         else if list_ex (\<lambda>keyword. contains keyword code_lower) [''for '', ''while '']
           then ''loop''
         else if contains ''class '' code_lower
           then ''class definition''
         else if list_ex (\<lambda>keyword. contains keyword code_lower) [''if '', ''elif '', ''else'']
           then ''conditional statement''
         else if contains ''='' code_lower \<and> \<not> contains ''=='' code_lower
           then ''variable assignment''
         else if list_ex (\<lambda>keyword. contains keyword code_lower) [''import '', ''#include'']
           then ''import/include statement''
         else ''code execution'')"

definition StaticCodeAnalysis_analyze :: "string \<Rightarrow> ErrorInfo \<Rightarrow> py_error + CodeInfo" where
  "StaticCodeAnalysis_analyze code error_info =
     (let lang = detect_language code
      in case extract_error_lines code (line_number error_info) of
           Inl e \<Rightarrow> Inl e
         | Inr lines \<Rightarrow>
             (case identify_error_block code (line_number error_info) of
                Inl e \<Rightarrow> Inl e
              | Inr block \<Rightarrow>
                  Inr \<lparr>language = lang,
                       error_block = block,
                       error_lines = lines,
                       intent = determine_code_intent block lang\<rparr>))"

section \<open>RuleBasedSystem\<close>

text \<open>\<open>self.rules\<close>: the catalog, keyed by the pair of error type and language.\<close>

definition rule_IndexError_python :: Recommendation where
  \<open>rule_IndexError_python =
     \<lparr>rec_explanation = ''An IndexError occurs when trying to access a list, tuple, or string index that doesn't exist.'',
      rec_severity = HIGH,
      rec_impact = ''This will halt program execution immediately and may cause data loss if not handled.'',
      rec_fixes =
       [[(''title'', ''Bounds Checking''),
        (''code'', ''if index < len(my_list):\<newline>    value = my_list[index]''),
        (''explanation'', ''Always check if the index is within valid range before accessing.'')],
        [(''title'', ''Use Enumerate''),
        (''code'', ''for i, item in enumerate(my_list):\<newline>    # Process item''),
        (''explanation'', ''Use enumerate() to safely iterate with indices.'')]],
      rec_best_practices =
       [''Always validate array/list bounds before accessing elements'',
        ''Use len() function to check collection size'',
        ''Consider using try/except blocks for error handling'']\<rparr>\<close>

definition rule_NameError_python :: Recommendation where
  \<open>rule_NameError_python =
     \<lparr>rec_explanation = ''A NameError occurs when trying to use a variable or function name that hasn't been defined.'',
      rec_severity = HIGH,
      rec_impact = ''This prevents the code from running and indicates a missing variable definition.'',
      rec_fixes =
       [[(''title'', ''Define Variable''),
        (''code'', ''variable_name = initial_value''),
        (''explanation'', ''Ensure the variable is defined before using it.'')],
        [(''title'', ''Check Imports''),
        (''code'', ''from module import function_name''),
        (''explanation'', ''Make sure required functions are properly imported.'')]],
      rec_best_practices =
       [''Define all variables before using them'',
        ''Check spelling of variable and function names'',
        ''Ensure proper import statements'']\<rparr>\<close>

definition rule_SyntaxError_python :: Recommendation where
  \<open>rule_SyntaxError_python =
     \<lparr>rec_explanation = ''A SyntaxError occurs when Python cannot parse the code due to incorrect syntax.'',
      rec_severity = CRITICAL,
      rec_impact = ''The code cannot run at all until the syntax is fixed.'',
      rec_fixes =
       [[(''title'', ''Check Indentation''),
        (''code'', ''if condition:\<newline>    statement  # Proper indentation''),
        (''explanation'', ''Ensure consistent indentation (4 spaces recommended).'')],
        [(''title'', ''Check Parentheses''),
        (''code'', ''result = function(arg1, arg2)''),
        (''explanation'', ''Make sure all parentheses, brackets, and braces are properly closed.'')]],
      rec_best_practices =
       [''Use consistent indentation (4 spaces)'',
        ''Match all opening and closing brackets/parentheses'',
        ''Use a code editor with syntax highlighting'']\<rparr>\<close>

definition rule_ZeroDivisionError_python :: Recommendation where
  \<open>rule_ZeroDivisionError_python =
     \<lparr>rec_explanation = ''A ZeroDivisionError occurs when attempting to divide by zero.'',
      rec_severity = HIGH,
      rec_impact = ''This will halt program execution and indicates improper input validation.'',
      rec_fixes =
       [[(''title'', ''Check Divisor''),
        (''code'', ''if divisor != 0:\<newline>    result = numerator / divisor\<newline>else:\<newline>    result = float('inf')''),
        (''explanation'', ''Always check if the divisor is zero before performing division.'')],
        [(''title'', ''Use Try-Except''),
        (''code'', ''try:\<newline>    result = numerator / divisor\<newline>except ZeroDivisionError:\<newline>    result = None  # or handle appropriately''),
        (''explanation'', ''Handle division by zero with exception handling.'')]],
      rec_best_practices =
       [''Validate inputs before mathematical operations'',
        ''Consider what should happen when division by zero occurs'',
        ''Use appropriate default values or error handling'']\<rparr>\<close>

definition rule_AttributeError_python :: Recommendation where
  \<open>rule_AttributeError_python =
     \<lparr>rec_explanation = ''An AttributeError occurs when trying to access an attribute or method that doesn't exist on an object.'',
      rec_severity = HIGH,
      rec_impact = ''This will crash the program and often indicates None values or incorrect object types.'',
      rec_fixes =
       [[(''title'', ''None Check''),
        (''code'', ''if obj is not None:\<newline>    result = obj.attribute\<newline>else:\<newline>    result = default_value''),
        (''explanation'', ''Check if the object is None before accessing its attributes.'')],
        [(''title'', ''Hasattr Check''),
        (''code'', ''if hasattr(obj, 'attribute'):\<newline>    result = obj.attribute\<newline>else:\<newline>    result = default_value''),
        (''explanation'', ''Use hasattr() to check if an attribute exists before accessing it.'')]],
      rec_best_practices =
       [''Always validate object state before accessing attributes'',
        ''Initialize objects properly in constructors'',
        ''Use getattr() with default values for optional attributes'']\<rparr>\<close>

definition rule_KeyError_python :: Recommendation where
  \<open>rule_KeyError_python =
     \<lparr>rec_explanation = ''A KeyError occurs when trying to access a dictionary key that doesn't exist.'',
      rec_severity = HIGH,
      rec_impact = ''This will halt execution and indicates missing data validation or incorrect key usage.'',
      rec_fixes =
       [[(''title'', ''Key Check''),
        (''code'', ''if key in dictionary:\<newline>    value = dictionary[key]\<newline>else:\<newline>    value = default_value''),
        (''explanation'', ''Check if the key exists in the dictionary before accessing it.'')],
        [(''title'', ''Use Get Method''),
        (''code'', ''value = dictionary.get(key, default_value)''),
        (''explanation'', ''Use the get() method with a default value to safely access dictionary keys.'')]],
      rec_best_practices =
       [''Validate dictionary keys before access'',
        ''Use dict.get() method for safe key access'',
        ''Handle missing keys gracefully with appropriate defaults'']\<rparr>\<close>

definition rule_RecursionError_python :: Recommendation where
  \<open>rule_RecursionError_python =
     \<lparr>rec_explanation = ''A RecursionError occurs when the maximum recursion depth is exceeded, usually due to infinite recursion.'',
      rec_severity = HIGH,
      rec_impact = ''This will crash the program and may consume excessive memory before failing.'',
      rec_fixes =
       [[(''title'', ''Add Base Case''),
        (''code'', ''def recursive_func(n):\<newline>    if n <= 0:  # Base case\<newline>        return 0\<newline>    return n + recursive_func(n-1)''),
        (''explanation'', ''Ensure your recursive function has a proper base case to terminate recursion.'')],
        [(''title'', ''Convert to Iterative''),
        (''code'', ''def iterative_func(n):\<newline>    result = 0\<newline>    for i in range(1, n+1):\<newline>        result += i\<newline>    return result''),
        (''explanation'', ''Consider converting recursive algorithms to iterative ones for large inputs.'')]],
      rec_best_practices =
       [''Always define clear base cases for recursive functions'',
        ''Consider iterative solutions for large datasets'',
        ''Use sys.setrecursionlimit() carefully if needed'']\<rparr>\<close>

definition rule_RuntimeError_python :: Recommendation where
  \<open>rule_RuntimeError_python =
     \<lparr>rec_explanation = ''A RuntimeError occurred, often related to async operations or system-level issues.'',
      rec_severity = HIGH,
      rec_impact = ''This indicates improper usage of runtime features like async/await or system resources.'',
      rec_fixes =
       [[(''title'', ''Proper Async Usage''),
        (''code'', ''import asyncio\<newline>\<newline>async def main():\<newline>    result = await async_function()\<newline>    return result\<newline>\<newline>asyncio.run(main())''),
        (''explanation'', ''Use asyncio.run() or await keyword properly for coroutines.'')],
        [(''title'', ''Exception Handling''),
        (''code'', ''try:\<newline>    # Problematic operation\<newline>    pass\<newline>except RuntimeError as e:\<newline>    print(f"Runtime error: {e}")''),
        (''explanation'', ''Handle runtime errors with specific exception catching.'')]],
      rec_best_practices =
       [''Use proper async/await patterns for coroutines'',
        ''Handle system-level errors appropriately'',
        ''Validate runtime conditions before operations'']\<rparr>\<close>

definition rule_JSONDecodeError_python :: Recommendation where
  \<open>rule_JSONDecodeError_python =
     \<lparr>rec_explanation = ''A JSONDecodeError occurs when trying to parse invalid JSON data.'',
      rec_severity = HIGH,
      rec_impact = ''This will halt execution and indicates malformed or invalid JSON input.'',
      rec_fixes =
       [[(''title'', ''Validate JSON''),
        (''code'', ''import json\<newline>\<newline>try:\<newline>    data = json.loads(json_string)\<newline>except json.JSONDecodeError as e:\<newline>    print(f"Invalid JSON: {e}")\<newline>    data = {}''),
        (''explanation'', ''Always wrap JSON parsing in try-except blocks to handle invalid data.'')],
        [(''title'', ''Pre-validate Format''),
        (''code'', ''if json_string.strip().startswith(('{', '[')):\<newline>    data = json.loads(json_string)\<newline>else:\<newline>    raise ValueError("Not valid JSON format")''),
        (''explanation'', ''Perform basic format validation before attempting to parse JSON.'')]],
      rec_best_practices =
       [''Always validate JSON input before parsing'',
        ''Use proper exception handling for JSON operations'',
        ''Provide meaningful error messages for invalid JSON'']\<rparr>\<close>

definition rule_NullPointerException_java :: Recommendation where
  \<open>rule_NullPointerException_java =
     \<lparr>rec_explanation = ''A NullPointerException occurs when trying to use a reference that points to no location in memory (null).'',
      rec_severity = HIGH,
      rec_impact = ''This will crash the program and may indicate improper object initialization.'',
      rec_fixes =
       [[(''title'', ''Null Check''),
        (''code'', ''if (object != null) {\<newline>    object.method();\<newline>}''),
        (''explanation'', ''Always check for null before using an object reference.'')],
        [(''title'', ''Initialize Object''),
        (''code'', ''MyObject obj = new MyObject();''),
        (''explanation'', ''Ensure objects are properly initialized before use.'')]],
      rec_best_practices =
       [''Always initialize objects before using them'',
        ''Use null checks when objects might be null'',
        ''Consider using Optional<T> in Java 8+'']\<rparr>\<close>

definition rules :: "((string \<times> string) \<times> Recommendation) list" where
  "rules = py_dict
     [((''IndexError'', ''python''), rule_IndexError_python),
      ((''NameError'', ''python''), rule_NameError_python),
      ((''SyntaxError'', ''python''), rule_SyntaxError_python),
      ((''ZeroDivisionError'', ''python''), rule_ZeroDivisionError_python),
      ((''AttributeError'', ''python''), rule_AttributeError_python),
      ((''KeyError'', ''python''), rule_KeyError_python),
      ((''RecursionError'', ''python''), rule_RecursionError_python),
      ((''RuntimeError'', ''python''), rule_RuntimeError_python),
      ((''JSONDecodeError'', ''python''), rule_JSONDecodeError_python),
      ((''NullPointerException'', ''java''), rule_NullPointerException_java)]"

definition get_recommendation :: "ErrorInfo \<Rightarrow> CodeInfo \<Rightarrow> Recommendation option" where
  "get_recommendation error_info code_info =
     map_of rules (error_type error_info, language code_info)"

section \<open>LanguageModelAnalyzer\<close>

definition severity_map :: "(ErrorClassification \<times> ErrorSeverity) list" where
  "severity_map = py_dict
     [(SYNTAX, CRITICAL),
      (RUNTIME, HIGH),
      (LOGICAL, MEDIUM),
      (SEMANTIC, MEDIUM),
      (UNKNOWN, MEDIUM)]"

definition generate_explanation :: "ErrorInfo \<Rightarrow> CodeInfo \<Rightarrow> string" where
  "generate_explanation error_info code_info =
     (let base0 = ''A '' @ error_type error_info @ '' occurred'';
          base1 = (if no_line (line_number error_info) then base0
                   else base0 @ '' at line '' @ py_str_int (the (line_number error_info)));
          base2 = (if intent code_info = ''loop'' then base1 @ '' within a loop structure''
                   else if intent code_info = ''function definition''
                     then base1 @ '' in a function definition''
                   else if intent code_info = ''variable assignment''
                     then base1 @ '' during variable assignment''
                   else base1);
          base3 = (if classification error_info = RUNTIME
                     then base2 @ ''. This is a runtime error that occurs during program execution''
                   else if classification error_info = SYNTAX
                     then base2 @ ''. This is a syntax error that prevents the code from running''
                   else base2)
      in base3 @ '' in '' @ language code_info @ '' code.'')"

definition impact_map :: "(ErrorSeverity \<times> string) list" where
  "impact_map = py_dict
     [(CRITICAL, ''This will prevent the program from running entirely and must be fixed immediately.''),
      (HIGH, ''This will cause the program to crash and may result in data loss or unexpected behavior.''),
      (MEDIUM, ''This may cause incorrect results or unexpected behavior in certain conditions.''),
      (LOW, ''This is a minor issue that may affect code quality or performance.'')]"

definition assess_impact :: "ErrorInfo \<Rightarrow> ErrorSeverity \<Rightarrow> string" where
  "assess_impact error_info sev =
     (case map_of impact_map sev of
        Some text \<Rightarrow> text
      | None \<Rightarrow> ''Impact assessment unavailable.'')"

definition fix_syntax :: fix_dict where
  "fix_syntax =
     [(''title'', ''Fix Syntax''),
      (''code'', ''# Check for missing colons, parentheses, or indentation issues''),
      (''explanation'', ''Review the syntax around the error line for common issues.'')]"

definition fix_error_handling :: fix_dict where
  \<open>fix_error_handling =
     [(''title'', ''Add Error Handling''),
      (''code'', ''try:\<newline>    # Problematic code here\<newline>except Exception as e:\<newline>    print(f"Error: {e}")''),
      (''explanation'', ''Wrap the problematic code in a try-except block to handle errors gracefully.'')]\<close>

definition fix_variable :: "string \<Rightarrow> fix_dict" where
  \<open>fix_variable var =
     [(''title'', ''Initialize '' @ var),
      (''code'', var @ '' = appropriate_initial_value''),
      (''explanation'', ''Ensure the variable "'' @ var @ ''" is properly defined and initialized.'')]\<close>

definition generate_fixes :: "ErrorInfo \<Rightarrow> CodeInfo \<Rightarrow> fix_dict list" where
  "generate_fixes error_info code_info =
     (let fixes = (if classification error_info = SYNTAX then [fix_syntax]
                   else if classification error_info = RUNTIME then [fix_error_handling]
                   else [])
      in if variables error_info \<noteq> []
         then fixes @ map fix_variable (variables error_info)
         else fixes)"

definition generate_best_practices :: "ErrorInfo \<Rightarrow> CodeInfo \<Rightarrow> string list" where
  "generate_best_practices error_info code_info =
     (let practices =
            (if language code_info = ''python''
               then [''Follow PEP 8 style guidelines for Python code'',
                     ''Use meaningful variable names'',
                     ''Add docstrings to functions and classes'']
             else if language code_info = ''java''
               then [''Follow Java naming conventions'',
                     ''Use proper exception handling'',
                     ''Initialize objects before use'']
             else [])
      in if classification error_info = RUNTIME
           then practices @ [''Implement proper error handling and validation'']
         else if classification error_info = SYNTAX
           then practices @ [''Use an IDE with syntax highlighting and error detection'']
         else practices)"

definition analyze_complex_error :: "ErrorInfo \<Rightarrow> CodeInfo \<Rightarrow> Recommendation" where
  "analyze_complex_error error_info code_info =
     (let sev = (case map_of severity_map (classification error_info) of
                   Some s \<Rightarrow> s
                 | None \<Rightarrow> MEDIUM)
      in \<lparr>rec_explanation = generate_explanation error_info code_info,
          rec_severity = sev,
          rec_impact = assess_impact error_info sev,
          rec_fixes = generate_fixes error_info code_info,
          rec_best_practices = generate_best_practices error_info code_info\<rparr>)"

section \<open>CodeErrorRecommendationEngine\<close>

definition reasoning_map :: "(ErrorSeverity \<times> string) list" where
  "reasoning_map = py_dict
     [(CRITICAL, ''This error prevents code execution entirely and should be addressed immediately to restore functionality.''),
      (HIGH, ''This error causes program crashes and may lead to data loss, making it a high priority for resolution.''),
      (MEDIUM, ''This error may cause incorrect behavior under certain conditions and should be addressed in the next development cycle.''),
      (LOW, ''This is a code quality issue that can be addressed during routine maintenance or refactoring.'')]"

definition generate_priority_reasoning :: "ErrorSeverity \<Rightarrow> string" where
  "generate_priority_reasoning sev =
     (case map_of reasoning_map sev of
        Some text \<Rightarrow> text
      | None \<Rightarrow> ''Priority assessment unavailable.'')"

text \<open>
  \<open>analyze_error\<close>. The two calls of \<open>print\<close> are left out. A catalog rule is a dictionary
  with five keys, so \<open>if rule_recommendation\<close> holds exactly when the lookup finds one.
  Both branches build the result from their recommendation in the same way, which is
  \<open>result_of\<close>.
\<close>

definition result_of :: "Recommendation \<Rightarrow> RecommendationResult" where
  "result_of r =
     \<lparr>explanation = rec_explanation r,
      severity = rec_severity r,
      impact = rec_impact r,
      proposed_fixes = rec_fixes r,
      best_practices = rec_best_practices r,
      priority_reasoning = generate_priority_reasoning (rec_severity r)\<rparr>"

definition analyze_error :: "(string list \<Rightarrow> string list) \<Rightarrow> string \<Rightarrow> string
                                \<Rightarrow> py_error + RecommendationResult" where
  "analyze_error set_order code error_log =
     (case ErrorLogAnalyzer_analyze set_order error_log of
        Inl e \<Rightarrow> Inl e
      | Inr error_info \<Rightarrow>
          (case StaticCodeAnalysis_analyze code error_info of
             Inl e \<Rightarrow> Inl e
           | Inr code_info \<Rightarrow>
               (case get_recommendation error_info code_info of
                  Some rule_recommendation \<Rightarrow> Inr (result_of rule_recommendation)
                | None \<Rightarrow> Inr (result_of (analyze_complex_error error_info code_info)))))"

section \<open>Statements of the specification\<close>

text \<open>
  The context lines as the prose of the specification words them: from two lines before
  the failure line, whose index is \<open>n - 1\<close>, through one line after it.
\<close>

definition spec_two_before_one_after :: "string list \<Rightarrow> int \<Rightarrow> string list" where
  "spec_two_before_one_after lines n =
     py_slice lines (max 0 ((n - 1) - 2)) (min (int (length lines)) ((n - 1) + 1 + 1))"


section \<open>Evaluating the character classes\<close>

text \<open>
  The character classes, stated on the eight bits of a character, so that a match on a
  concrete text is computed without arithmetic.
\<close>

lemma py_lower_char_bits [code]:
  "py_lower_char (Char b0 b1 b2 b3 b4 b5 b6 b7) =
     (if b6 \<and> \<not> b5 \<and>
         (if b7 then \<not> (b0 \<and> b1 \<and> b2 \<and> b4)
          else (b0 \<or> b1 \<or> b2 \<or> b3 \<or> b4) \<and> \<not> (b4 \<and> b3 \<and> (b2 \<or> (b1 \<and> b0))))
      then Char b0 b1 b2 b3 b4 True b6 b7 else Char b0 b1 b2 b3 b4 b5 b6 b7)"
  by (cases b0; cases b1; cases b2; cases b3; cases b4; cases b5; cases b6; cases b7;
      simp add: py_lower_char_def char_of_def bit_Suc_0_iff)

lemma re_word_bits [code]:
  "re_word (Char b0 b1 b2 b3 b4 b5 b6 b7) =
     (if b7 then (b6 \<and> \<not> (b0 \<and> b1 \<and> b2 \<and> \<not> b3 \<and> b4))
                 \<or> (\<not> b6 \<and> b5 \<and> ((\<not> b4 \<and> b3 \<and> \<not> b2 \<and> b1 \<and> \<not> b0)
                       \<or> (b4 \<and> \<not> b3 \<and> ((\<not> b2 \<and> b1) \<or> (b2 \<and> \<not> b1 \<and> b0)))
                       \<or> (b4 \<and> b3 \<and> ((\<not> b2 \<and> (b0 \<noteq> b1)) \<or> (b2 \<and> \<not> (b1 \<and> b0))))))
      else if b6 then ((b0 \<or> b1 \<or> b2 \<or> b3 \<or> b4) \<and> \<not> (b4 \<and> b3 \<and> (b2 \<or> (b1 \<and> b0))))
                      \<or> (\<not> b5 \<and> b4 \<and> b3 \<and> b2 \<and> b1 \<and> b0)
      else b5 \<and> b4 \<and> (\<not> b3 \<or> (\<not> b2 \<and> \<not> b1)))"
  by (cases b0; cases b1; cases b2; cases b3; cases b4; cases b5; cases b6; cases b7;
      simp add: re_word_def)

lemma py_isdecimal_bits [code]:
  "py_isdecimal (Char b0 b1 b2 b3 b4 b5 b6 b7) =
     (\<not> b7 \<and> \<not> b6 \<and> b5 \<and> b4 \<and> (\<not> b3 \<or> (\<not> b2 \<and> \<not> b1)))"
  by (cases b0; cases b1; cases b2; cases b3; cases b4; cases b5; cases b6; cases b7;
      simp add: py_isdecimal_def)

lemma py_isspace_bits [code]:
  "py_isspace (Char b0 b1 b2 b3 b4 b5 b6 b7) =
     (if b7 then \<not> b6 \<and> \<not> b4 \<and> \<not> b3 \<and> \<not> b1 \<and> (b5 \<noteq> b2) \<and> (b0 = b2)
      else \<not> b6 \<and> ((b5 \<and> \<not> b4 \<and> \<not> b3 \<and> \<not> b2 \<and> \<not> b1 \<and> \<not> b0)
                    \<or> (\<not> b5 \<and> b3 \<and> ((b4 \<and> b2) \<or> (\<not> b4 \<and> ((\<not> b2 \<and> (b1 \<or> b0)) \<or> (b2 \<and> \<not> b1)))))))"
  by (cases b0; cases b1; cases b2; cases b3; cases b4; cases b5; cases b6; cases b7;
      simp add: py_isspace_def)

section \<open>The code context\<close>

lemma split_nl_nonempty: "split_nl s \<noteq> []"
  by (induction s) (auto split: list.splits)

text \<open>The code context of an error record without a line number.\<close>

lemma analyze_without_line:
  assumes "no_line (line_number error_info)"
  shows "StaticCodeAnalysis_analyze code error_info =
     Inr \<lparr>language = detect_language code, error_block = take 200 code,
          error_lines = [hd (split_nl code)],
          intent = determine_code_intent (take 200 code) (detect_language code)\<rparr>"
proof -
  obtain l ls where s: "split_nl code = l # ls"
    using split_nl_nonempty by (cases "split_nl code") auto
  show ?thesis
    using assms
    by (simp add: StaticCodeAnalysis_analyze_def extract_error_lines_def
        identify_error_block_def Let_def s)
qed

text \<open>
  Claim C7: when the line number is greater than the number of lines of the source,
  \<open>StaticCodeAnalysis.analyze\<close> does not raise; the context lines are empty and the error
  block is the whole source.
\<close>

theorem analyze_beyond_last_line:
  assumes "line_number error_info = Some n" and "int (length (split_nl code)) < n"
  shows "StaticCodeAnalysis_analyze code error_info =
           Inr \<lparr>language = detect_language code, error_block = code, error_lines = [],
                intent = determine_code_intent code (detect_language code)\<rparr>"
proof -
  have "0 < n" using assms(2) by linarith
  then have nl: "\<not> no_line (line_number error_info)"
    using assms(1) by (simp add: no_line_def)
  have a: "extract_error_lines code (line_number error_info) = Inr []"
    using nl assms by (simp add: extract_error_lines_def Let_def)
  have b: "identify_error_block code (line_number error_info) = Inr code"
    using nl assms by (simp add: identify_error_block_def Let_def)
  show ?thesis by (simp add: StaticCodeAnalysis_analyze_def Let_def a b)
qed

theorem analyze_beyond_last_line_witness:
  "int (length (split_nl ''x = 1'')) < 5 \<and>
   StaticCodeAnalysis_analyze ''x = 1''
       \<lparr>error_type = ''KeyError'', line_number = Some 5, variables = [],
        full_message = ''KeyError: 'k' at line 5'', classification = RUNTIME\<rparr> =
     Inr \<lparr>language = ''unknown'', error_block = ''x = 1'', error_lines = [],
          intent = ''variable assignment''\<rparr>"
proof -
  have h: "int (length (split_nl ''x = 1'')) < 5" by code_simp
  have l: "detect_language ''x = 1'' = ''unknown''" by code_simp
  have i: "determine_code_intent ''x = 1'' ''unknown'' = ''variable assignment''" by code_simp
  show ?thesis
    using h analyze_beyond_last_line [OF _ h, of
        "\<lparr>error_type = ''KeyError'', line_number = Some 5, variables = [],
          full_message = ''KeyError: 'k' at line 5'', classification = RUNTIME\<rparr>"]
    by (simp add: l i)
qed

text \<open>
  Claim C9: a line number of zero, which the classifier produces from a captured \<open>0\<close>, is
  treated like an absent one: the context lines are the first source line alone and the
  error block is the first 200 characters of the source.
\<close>

theorem zero_line_number_as_absent:
  "StaticCodeAnalysis_analyze code (error_info\<lparr>line_number := Some 0\<rparr>) =
     Inr \<lparr>language = detect_language code, error_block = take 200 code,
          error_lines = [hd (split_nl code)],
          intent = determine_code_intent (take 200 code) (detect_language code)\<rparr>
   \<and> StaticCodeAnalysis_analyze code (error_info\<lparr>line_number := Some 0\<rparr>) =
       StaticCodeAnalysis_analyze code (error_info\<lparr>line_number := None\<rparr>)
   \<and> split_nl code \<noteq> []
   \<and> ErrorLogAnalyzer_analyze set_order ''ValueError: bad at line 0'' =
       Inr \<lparr>error_type = ''ValueError'', line_number = Some 0, variables = set_order [],
            full_message = ''ValueError: bad at line 0'', classification = RUNTIME\<rparr>"
proof -
  have a: "StaticCodeAnalysis_analyze code (error_info\<lparr>line_number := Some 0\<rparr>) =
     Inr \<lparr>language = detect_language code, error_block = take 200 code,
          error_lines = [hd (split_nl code)],
          intent = determine_code_intent (take 200 code) (detect_language code)\<rparr>"
    by (rule analyze_without_line) (simp add: no_line_def)
  have b: "StaticCodeAnalysis_analyze code (error_info\<lparr>line_number := None\<rparr>) =
     Inr \<lparr>language = detect_language code, error_block = take 200 code,
          error_lines = [hd (split_nl code)],
          intent = determine_code_intent (take 200 code) (detect_language code)\<rparr>"
    by (rule analyze_without_line) (simp add: no_line_def)
  have c: "ErrorLogAnalyzer_analyze set_order ''ValueError: bad at line 0'' =
       Inr \<lparr>error_type = ''ValueError'', line_number = Some 0, variables = set_order [],
            full_message = ''ValueError: bad at line 0'', classification = RUNTIME\<rparr>"
    by code_simp
  show ?thesis using a b c split_nl_nonempty [of code] by simp
qed

text \<open>A slice with bounds that are not negative, as the lines at its indices.\<close>

lemma take_drop_nth:
  assumes "e \<le> length xs"
  shows "take (e - s) (drop s xs) = map (nth xs) [s..<e]"
proof (cases "s \<le> e")
  case True
  have "take (e - s) (drop s xs) = take (e - s) (drop s (map (nth xs) [0..<length xs]))"
    by (simp only: map_nth)
  also have "\<dots> = map (nth xs) (take (e - s) (drop s [0..<length xs]))"
    by (simp only: drop_map take_map)
  also have "take (e - s) (drop s [0..<length xs]) = [s..<e]"
    using True assms by simp
  finally show ?thesis .
next
  case False
  then show ?thesis by simp
qed

lemma py_slice_nth:
  assumes "0 \<le> a" and "0 \<le> b"
  shows "py_slice xs a b = map (nth xs) [min (length xs) (nat a) ..< min (length xs) (nat b)]"
proof -
  have "py_slice xs a b = take (min (length xs) (nat b) - min (length xs) (nat a))
                            (drop (min (length xs) (nat a)) xs)"
    using assms by (simp add: py_slice_def slice_bound_def Let_def)
  also have "\<dots> = map (nth xs) [min (length xs) (nat a) ..< min (length xs) (nat b)]"
    by (rule take_drop_nth) simp
  finally show ?thesis .
qed

text \<open>
  Claim C4, as amended: for a line number \<open>n\<close> from 1 to the number of lines, the context
  lines are the lines at the indices from \<open>n - 2\<close> to \<open>n\<close>, clipped to the source: one line
  before the failure line, the failure line and one line after it. Without a line number
  they are the first source line alone.
\<close>

theorem context_window:
  "extract_error_lines code None = Inr [hd (split_nl code)]
   \<and> split_nl code \<noteq> []
   \<and> (1 \<le> n \<and> n \<le> int (length (split_nl code)) \<longrightarrow>
        extract_error_lines code (Some n) =
          Inr (map (nth (split_nl code))
                 [nat (n - 2) ..< min (length (split_nl code)) (nat (n + 1))]))"
proof -
  obtain l ls where s: "split_nl code = l # ls"
    using split_nl_nonempty by (cases "split_nl code") auto
  have a: "extract_error_lines code None = Inr [hd (split_nl code)]"
    by (simp add: extract_error_lines_def no_line_def s)
  have b: "extract_error_lines code (Some n) =
          Inr (map (nth (split_nl code))
                 [nat (n - 2) ..< min (length (split_nl code)) (nat (n + 1))])"
    if h: "1 \<le> n" "n \<le> int (length (split_nl code))"
  proof -
    have "extract_error_lines code (Some n) =
            Inr (py_slice (split_nl code) (max 0 (n - 2))
                   (min (int (length (split_nl code))) (n + 1)))"
      using h by (simp add: extract_error_lines_def no_line_def Let_def)
    also have "py_slice (split_nl code) (max 0 (n - 2))
                 (min (int (length (split_nl code))) (n + 1))
        = map (nth (split_nl code))
            [min (length (split_nl code)) (nat (max 0 (n - 2)))
             ..< min (length (split_nl code))
                   (nat (min (int (length (split_nl code))) (n + 1)))]"
      using h by (intro py_slice_nth) auto
    also have "min (length (split_nl code)) (nat (max 0 (n - 2))) = nat (n - 2)"
      using h by linarith
    also have "min (length (split_nl code)) (nat (min (int (length (split_nl code))) (n + 1)))
         = min (length (split_nl code)) (nat (n + 1))"
      using h by linarith
    finally show ?thesis .
  qed
  show ?thesis using a b s by simp
qed

theorem context_window_witness:
  "(1::int) \<le> 3 \<and> 3 \<le> int (length (split_nl ''a\<newline>b\<newline>c\<newline>d\<newline>e''))
   \<and> extract_error_lines ''a\<newline>b\<newline>c\<newline>d\<newline>e'' (Some 3) = Inr [''b'', ''c'', ''d'']"
proof -
  have h: "(1::int) \<le> 3 \<and> 3 \<le> int (length (split_nl ''a\<newline>b\<newline>c\<newline>d\<newline>e''))"
    by code_simp
  have m: "map (nth (split_nl ''a\<newline>b\<newline>c\<newline>d\<newline>e''))
             [nat (3 - 2) ..< min (length (split_nl ''a\<newline>b\<newline>c\<newline>d\<newline>e'')) (nat (3 + 1))]
           = [''b'', ''c'', ''d'']"
    by code_simp
  from context_window [of "''a\<newline>b\<newline>c\<newline>d\<newline>e''" 3] h
  have "extract_error_lines ''a\<newline>b\<newline>c\<newline>d\<newline>e'' (Some 3) =
          Inr (map (nth (split_nl ''a\<newline>b\<newline>c\<newline>d\<newline>e''))
             [nat (3 - 2) ..< min (length (split_nl ''a\<newline>b\<newline>c\<newline>d\<newline>e'')) (nat (3 + 1))])"
    by blast
  then have "extract_error_lines ''a\<newline>b\<newline>c\<newline>d\<newline>e'' (Some 3) = Inr [''b'', ''c'', ''d'']"
    by (simp only: m)
  with h show ?thesis by blast
qed

text \<open>
  The claim as the specification states it fails on the third of five lines: the context
  lines are the second, third and fourth line, and the first line, two before the failure
  line, is not among them.
\<close>

theorem context_window_counterexample:
  "extract_error_lines ''a\<newline>b\<newline>c\<newline>d\<newline>e'' (Some 3) = Inr [''b'', ''c'', ''d'']
   \<and> spec_two_before_one_after (split_nl ''a\<newline>b\<newline>c\<newline>d\<newline>e'') 3
       = [''a'', ''b'', ''c'', ''d'']"
  by code_simp

text \<open>
  The backward loop: it stops at the closest line at or before \<open>i\<close> that holds a
  keyword, and leaves \<open>start_line\<close> as it was when no line does.
\<close>

lemma block_start_none:
  assumes "i < length lines" and "\<forall>j\<le>i. \<not> has_block_keyword (py_strip (lines ! j))"
  shows "block_start lines d i = Inr d"
  using assms by (induction i) simp_all

lemma block_start_found:
  assumes "i < length lines" and "s \<le> i" and "has_block_keyword (py_strip (lines ! s))"
    and "\<forall>k. s < k \<and> k \<le> i \<longrightarrow> \<not> has_block_keyword (py_strip (lines ! k))"
  shows "block_start lines d i = Inr s"
  using assms
proof (induction i)
  case 0
  then show ?case by simp
next
  case (Suc i)
  show ?case
  proof (cases "s = Suc i")
    case True
    then show ?thesis using Suc.prems by simp
  next
    case False
    then have le: "s \<le> i" using Suc.prems(2) by simp
    have no: "\<not> has_block_keyword (py_strip (lines ! Suc i))"
      using Suc.prems(4) le by simp
    have "block_start lines d i = Inr s"
      using Suc.IH Suc.prems le by simp
    then show ?thesis using no Suc.prems(1) by simp
  qed
qed

lemma block_start_spec:
  assumes "i < length lines"
  shows "\<exists>s. block_start lines d i = Inr s \<and>
           (if \<exists>j\<le>i. has_block_keyword (py_strip (lines ! j))
            then s \<le> i \<and> has_block_keyword (py_strip (lines ! s))
                 \<and> (\<forall>k. s < k \<and> k \<le> i \<longrightarrow> \<not> has_block_keyword (py_strip (lines ! k)))
            else s = d)"
proof (cases "\<exists>j\<le>i. has_block_keyword (py_strip (lines ! j))")
  case False
  then have "block_start lines d i = Inr d"
    using assms by (intro block_start_none) auto
  then show ?thesis using False by auto
next
  case True
  define P where "P j = (j \<le> i \<and> has_block_keyword (py_strip (lines ! j)))" for j
  from True obtain j where j: "P j" by (auto simp: P_def)
  have bound: "y \<le> i" if "P y" for y using that by (simp add: P_def)
  define s where "s = Greatest P"
  have Ps: "P s" unfolding s_def using j bound by (rule GreatestI_nat)
  have top: "\<not> P k" if "s < k" for k
  proof
    assume "P k"
    then have "k \<le> s" unfolding s_def using bound by (rule Greatest_le_nat)
    then show False using that by simp
  qed
  have "block_start lines d i = Inr s"
    using assms Ps top by (intro block_start_found) (auto simp: P_def)
  moreover have "s \<le> i \<and> has_block_keyword (py_strip (lines ! s))
                 \<and> (\<forall>k. s < k \<and> k \<le> i \<longrightarrow> \<not> has_block_keyword (py_strip (lines ! k)))"
    using Ps top by (auto simp: P_def)
  ultimately show ?thesis using True by simp
qed

text \<open>
  Claim C8: for a line number \<open>n\<close> from 1 to the number of lines, the error block is the
  join of the lines from the block start up to index \<open>n + 5\<close>, clipped to the source. The
  block start is the closest line at or before the error line whose stripped text contains
  a block keyword, and the error line itself when no such line exists.
\<close>

theorem error_block_window:
  assumes "1 \<le> n" and "n \<le> int (length (split_nl code))"
  shows "\<exists>start. identify_error_block code (Some n) =
             Inr (join_nl (map (nth (split_nl code))
                    [start ..< min (length (split_nl code)) (nat (n + 5))]))
           \<and> (if \<exists>j<nat n. has_block_keyword (py_strip (split_nl code ! j))
              then start < nat n \<and> has_block_keyword (py_strip (split_nl code ! start))
                   \<and> (\<forall>k. start < k \<and> k < nat n
                          \<longrightarrow> \<not> has_block_keyword (py_strip (split_nl code ! k)))
              else start = nat (n - 1))"
proof -
  define lines where "lines = split_nl code"
  define i where "i = nat (n - 1)"
  have i: "i < length lines" "nat n = Suc i"
    using assms by (auto simp: i_def lines_def)
  from block_start_spec [OF i(1), of i] obtain s where
    s: "block_start lines i i = Inr s"
    and c: "if \<exists>j\<le>i. has_block_keyword (py_strip (lines ! j))
            then s \<le> i \<and> has_block_keyword (py_strip (lines ! s))
                 \<and> (\<forall>k. s < k \<and> k \<le> i \<longrightarrow> \<not> has_block_keyword (py_strip (lines ! k)))
            else s = i"
    by blast
  have sl: "s < length lines" using c i(1) by (auto split: if_splits)
  have "identify_error_block code (Some n) =
          Inr (join_nl (py_slice lines (int s) (min (int (length lines)) (n + 5))))"
    using assms s by (simp add: identify_error_block_def no_line_def Let_def lines_def i_def)
  also have "py_slice lines (int s) (min (int (length lines)) (n + 5))
      = map (nth lines) [min (length lines) (nat (int s))
                          ..< min (length lines) (nat (min (int (length lines)) (n + 5)))]"
    using assms by (intro py_slice_nth) auto
  also have "min (length lines) (nat (int s)) = s" using sl by simp
  also have "min (length lines) (nat (min (int (length lines)) (n + 5)))
      = min (length lines) (nat (n + 5))"
    using assms by linarith
  finally have a: "identify_error_block code (Some n) =
     Inr (join_nl (map (nth lines) [s ..< min (length lines) (nat (n + 5))]))" .
  have b: "if \<exists>j<nat n. has_block_keyword (py_strip (lines ! j))
              then s < nat n \<and> has_block_keyword (py_strip (lines ! s))
                   \<and> (\<forall>k. s < k \<and> k < nat n
                          \<longrightarrow> \<not> has_block_keyword (py_strip (lines ! k)))
              else s = i"
    using c by (simp only: i(2) less_Suc_eq_le)
  show ?thesis using a b unfolding lines_def i_def by blast
qed

theorem error_block_window_witness:
  "(1::int) \<le> 3 \<and> 3 \<le> int (length (split_nl ''a\<newline>if b:\<newline>c\<newline>d\<newline>e''))
   \<and> (\<exists>start. identify_error_block ''a\<newline>if b:\<newline>c\<newline>d\<newline>e'' (Some 3) =
             Inr (join_nl (map (nth (split_nl ''a\<newline>if b:\<newline>c\<newline>d\<newline>e''))
                    [start ..< min (length (split_nl ''a\<newline>if b:\<newline>c\<newline>d\<newline>e''))
                                 (nat (3 + 5))]))
           \<and> start < nat 3
           \<and> has_block_keyword (py_strip (split_nl ''a\<newline>if b:\<newline>c\<newline>d\<newline>e'' ! start)))
   \<and> identify_error_block ''a\<newline>if b:\<newline>c\<newline>d\<newline>e'' (Some 3) = Inr ''if b:\<newline>c\<newline>d\<newline>e''
   \<and> identify_error_block ''a\<newline>b\<newline>c\<newline>d\<newline>e'' (Some 3) = Inr ''c\<newline>d\<newline>e''"
proof -
  have h1: "(1::int) \<le> 3" by simp
  have h2: "3 \<le> int (length (split_nl ''a\<newline>if b:\<newline>c\<newline>d\<newline>e''))" by code_simp
  have k: "has_block_keyword (py_strip (split_nl ''a\<newline>if b:\<newline>c\<newline>d\<newline>e'' ! 1))"
    by code_simp
  then have ex: "\<exists>j<nat 3. has_block_keyword
                    (py_strip (split_nl ''a\<newline>if b:\<newline>c\<newline>d\<newline>e'' ! j))"
    by (intro exI [of _ 1]) simp
  have v1: "identify_error_block ''a\<newline>if b:\<newline>c\<newline>d\<newline>e'' (Some 3) = Inr ''if b:\<newline>c\<newline>d\<newline>e''"
    by code_simp
  have v2: "identify_error_block ''a\<newline>b\<newline>c\<newline>d\<newline>e'' (Some 3) = Inr ''c\<newline>d\<newline>e''"
    by code_simp
  from error_block_window [OF h1 h2] ex
  have "\<exists>start. identify_error_block ''a\<newline>if b:\<newline>c\<newline>d\<newline>e'' (Some 3) =
             Inr (join_nl (map (nth (split_nl ''a\<newline>if b:\<newline>c\<newline>d\<newline>e''))
                    [start ..< min (length (split_nl ''a\<newline>if b:\<newline>c\<newline>d\<newline>e''))
                                 (nat (3 + 5))]))
           \<and> start < nat 3
           \<and> has_block_keyword (py_strip (split_nl ''a\<newline>if b:\<newline>c\<newline>d\<newline>e'' ! start))"
    by (simp only: if_True) blast
  then show ?thesis using h1 h2 v1 v2 by blast
qed

section \<open>The catalog and the pipeline\<close>

text \<open>The catalog has ten keys, each once, and no rule of severity \<open>LOW\<close>.\<close>

lemma rules_eq:
  "rules =
     [((''IndexError'', ''python''), rule_IndexError_python),
      ((''NameError'', ''python''), rule_NameError_python),
      ((''SyntaxError'', ''python''), rule_SyntaxError_python),
      ((''ZeroDivisionError'', ''python''), rule_ZeroDivisionError_python),
      ((''AttributeError'', ''python''), rule_AttributeError_python),
      ((''KeyError'', ''python''), rule_KeyError_python),
      ((''RecursionError'', ''python''), rule_RecursionError_python),
      ((''RuntimeError'', ''python''), rule_RuntimeError_python),
      ((''JSONDecodeError'', ''python''), rule_JSONDecodeError_python),
      ((''NullPointerException'', ''java''), rule_NullPointerException_java)]"
  by (simp add: rules_def py_dict_def)

lemma rules_keys:
  "map fst rules =
     [(''IndexError'', ''python''), (''NameError'', ''python''), (''SyntaxError'', ''python''),
      (''ZeroDivisionError'', ''python''), (''AttributeError'', ''python''),
      (''KeyError'', ''python''), (''RecursionError'', ''python''),
      (''RuntimeError'', ''python''), (''JSONDecodeError'', ''python''),
      (''NullPointerException'', ''java'')]"
  by (simp add: rules_eq)

lemma rules_distinct: "distinct (map fst rules)"
  by (simp add: rules_keys)

lemma rules_severity:
  assumes "(k, r) \<in> set rules"
  shows "rec_severity r = CRITICAL \<or> rec_severity r = HIGH"
  using assms
  by (auto simp: rules_eq rule_IndexError_python_def rule_NameError_python_def
      rule_SyntaxError_python_def rule_ZeroDivisionError_python_def
      rule_AttributeError_python_def rule_KeyError_python_def rule_RecursionError_python_def
      rule_RuntimeError_python_def rule_JSONDecodeError_python_def
      rule_NullPointerException_java_def)

lemma severity_map_eq:
  "(case map_of severity_map c of Some s \<Rightarrow> s | None \<Rightarrow> MEDIUM) =
     (case c of SYNTAX \<Rightarrow> CRITICAL | RUNTIME \<Rightarrow> HIGH | LOGICAL \<Rightarrow> MEDIUM
      | SEMANTIC \<Rightarrow> MEDIUM | UNKNOWN \<Rightarrow> MEDIUM)"
  by (cases c) (simp_all add: severity_map_def py_dict_def)

lemma heuristic_severity:
  "rec_severity (analyze_complex_error error_info code_info) =
     (case classification error_info of SYNTAX \<Rightarrow> CRITICAL | RUNTIME \<Rightarrow> HIGH
      | LOGICAL \<Rightarrow> MEDIUM | SEMANTIC \<Rightarrow> MEDIUM | UNKNOWN \<Rightarrow> MEDIUM)"
  by (simp add: analyze_complex_error_def Let_def severity_map_eq)

text \<open>The pipeline, once the log and the code are analysed.\<close>

lemma analyze_error_cases:
  assumes "ErrorLogAnalyzer_analyze set_order error_log = Inr error_info"
    and "StaticCodeAnalysis_analyze code error_info = Inr code_info"
  shows "analyze_error set_order code error_log =
           Inr (result_of (case get_recommendation error_info code_info of
                             Some r \<Rightarrow> r
                           | None \<Rightarrow> analyze_complex_error error_info code_info))"
  using assms by (simp add: analyze_error_def split: option.splits)

lemma analyze_error_Inr:
  assumes "analyze_error set_order code error_log = Inr result"
  obtains error_info code_info where
    "ErrorLogAnalyzer_analyze set_order error_log = Inr error_info"
    "StaticCodeAnalysis_analyze code error_info = Inr code_info"
    "result = result_of (case get_recommendation error_info code_info of
                             Some r \<Rightarrow> r
                           | None \<Rightarrow> analyze_complex_error error_info code_info)"
  using assms by (auto simp: analyze_error_def split: sum.splits option.splits)

text \<open>
  Claim C5: the catalog lookup is by the exact pair of error type and language. For a
  pair that is no key of the catalog the lookup finds nothing and the pipeline returns what
  the heuristic recommender produces; for a key, the pipeline returns the explanation,
  severity, impact, fixes and best practices of its rule as they are.
\<close>

theorem catalog_lookup_exact:
  assumes "ErrorLogAnalyzer_analyze set_order error_log = Inr error_info"
    and "StaticCodeAnalysis_analyze code error_info = Inr code_info"
  shows "((error_type error_info, language code_info) \<notin> fst ` set rules \<longrightarrow>
            get_recommendation error_info code_info = None
            \<and> analyze_error set_order code error_log =
                Inr (result_of (analyze_complex_error error_info code_info)))
       \<and> (\<forall>r. ((error_type error_info, language code_info), r) \<in> set rules \<longrightarrow>
            get_recommendation error_info code_info = Some r
            \<and> analyze_error set_order code error_log =
                Inr \<lparr>explanation = rec_explanation r, severity = rec_severity r,
                     impact = rec_impact r, proposed_fixes = rec_fixes r,
                     best_practices = rec_best_practices r,
                     priority_reasoning = generate_priority_reasoning (rec_severity r)\<rparr>)
       \<and> map fst rules =
           [(''IndexError'', ''python''), (''NameError'', ''python''),
            (''SyntaxError'', ''python''), (''ZeroDivisionError'', ''python''),
            (''AttributeError'', ''python''), (''KeyError'', ''python''),
            (''RecursionError'', ''python''), (''RuntimeError'', ''python''),
            (''JSONDecodeError'', ''python''), (''NullPointerException'', ''java'')]"
proof (intro conjI impI allI)
  assume "(error_type error_info, language code_info) \<notin> fst ` set rules"
  then show n: "get_recommendation error_info code_info = None"
    by (simp add: get_recommendation_def map_of_eq_None_iff)
  show "analyze_error set_order code error_log =
                Inr (result_of (analyze_complex_error error_info code_info))"
    using analyze_error_cases [OF assms] n by simp
next
  fix r assume "((error_type error_info, language code_info), r) \<in> set rules"
  then show s: "get_recommendation error_info code_info = Some r"
    using rules_distinct by (simp add: get_recommendation_def)
  show "analyze_error set_order code error_log =
                Inr \<lparr>explanation = rec_explanation r, severity = rec_severity r,
                     impact = rec_impact r, proposed_fixes = rec_fixes r,
                     best_practices = rec_best_practices r,
                     priority_reasoning = generate_priority_reasoning (rec_severity r)\<rparr>"
    using analyze_error_cases [OF assms] s by (simp add: result_of_def)
next
  show "map fst rules =
           [(''IndexError'', ''python''), (''NameError'', ''python''),
            (''SyntaxError'', ''python''), (''ZeroDivisionError'', ''python''),
            (''AttributeError'', ''python''), (''KeyError'', ''python''),
            (''RecursionError'', ''python''), (''RuntimeError'', ''python''),
            (''JSONDecodeError'', ''python''), (''NullPointerException'', ''java'')]"
    by (rule rules_keys)
qed

theorem catalog_lookup_exact_witness:
  "analyze_error remdups ''print(x)'' ''IndexError: list index out of range'' =
     Inr \<lparr>explanation = rec_explanation rule_IndexError_python,
          severity = rec_severity rule_IndexError_python,
          impact = rec_impact rule_IndexError_python,
          proposed_fixes = rec_fixes rule_IndexError_python,
          best_practices = rec_best_practices rule_IndexError_python,
          priority_reasoning = generate_priority_reasoning (rec_severity rule_IndexError_python)\<rparr>
   \<and> analyze_error remdups ''print(x)'' ''indexerror: list index out of range'' =
       Inr (result_of (analyze_complex_error
              \<lparr>error_type = ''indexerror'', line_number = None, variables = [],
               full_message = ''indexerror: list index out of range'',
               classification = RUNTIME\<rparr>
              \<lparr>language = ''python'', error_block = ''print(x)'',
               error_lines = [''print(x)''], intent = ''code execution''\<rparr>))"
proof -
  let ?ci = "\<lparr>language = ''python'', error_block = ''print(x)'',
               error_lines = [''print(x)''], intent = ''code execution''\<rparr>"
  let ?hit = "\<lparr>error_type = ''IndexError'', line_number = None, variables = [],
               full_message = ''IndexError: list index out of range'',
               classification = RUNTIME\<rparr>"
  let ?miss = "\<lparr>error_type = ''indexerror'', line_number = None, variables = [],
               full_message = ''indexerror: list index out of range'',
               classification = RUNTIME\<rparr>"
  have e1: "ErrorLogAnalyzer_analyze remdups ''IndexError: list index out of range'' = Inr ?hit"
    by code_simp
  have c1: "StaticCodeAnalysis_analyze ''print(x)'' ?hit = Inr ?ci"
    by code_simp
  have m1: "((error_type ?hit, language ?ci), rule_IndexError_python) \<in> set rules"
    by (simp add: rules_eq)
  have e2: "ErrorLogAnalyzer_analyze remdups ''indexerror: list index out of range'' = Inr ?miss"
    by code_simp
  have c2: "StaticCodeAnalysis_analyze ''print(x)'' ?miss = Inr ?ci"
    by code_simp
  have m2: "(error_type ?miss, language ?ci) \<notin> fst ` set rules"
    by (simp add: rules_eq)
  show ?thesis
    using catalog_lookup_exact [OF e1 c1] m1 catalog_lookup_exact [OF e2 c2] m2
    by blast
qed

text \<open>
  Claim C6: the severity of the heuristic recommender is fixed by the classification of
  the error record (\<open>SYNTAX\<close> gives \<open>CRITICAL\<close>, \<open>RUNTIME\<close> gives \<open>HIGH\<close>, the other three
  give \<open>MEDIUM\<close>), and in both branches of the pipeline the priority reasoning is fixed by
  the severity of the result, one sentence for each of the four levels.
\<close>

theorem severity_and_reasoning_fixed:
  "rec_severity (analyze_complex_error error_info code_info) =
     (case classification error_info of SYNTAX \<Rightarrow> CRITICAL | RUNTIME \<Rightarrow> HIGH
      | LOGICAL \<Rightarrow> MEDIUM | SEMANTIC \<Rightarrow> MEDIUM | UNKNOWN \<Rightarrow> MEDIUM)
   \<and> (ErrorLogAnalyzer_analyze set_order error_log = Inr info
        \<and> StaticCodeAnalysis_analyze code info = Inr context
        \<and> get_recommendation info context = None \<longrightarrow>
        map_sum id severity (analyze_error set_order code error_log) =
          Inr (case classification info of SYNTAX \<Rightarrow> CRITICAL | RUNTIME \<Rightarrow> HIGH
               | LOGICAL \<Rightarrow> MEDIUM | SEMANTIC \<Rightarrow> MEDIUM | UNKNOWN \<Rightarrow> MEDIUM))
   \<and> (analyze_error set_order code error_log = Inr result \<longrightarrow>
        priority_reasoning result = generate_priority_reasoning (severity result))
   \<and> generate_priority_reasoning CRITICAL = ''This error prevents code execution entirely and should be addressed immediately to restore functionality.''
   \<and> generate_priority_reasoning HIGH = ''This error causes program crashes and may lead to data loss, making it a high priority for resolution.''
   \<and> generate_priority_reasoning MEDIUM = ''This error may cause incorrect behavior under certain conditions and should be addressed in the next development cycle.''
   \<and> generate_priority_reasoning LOW = ''This is a code quality issue that can be addressed during routine maintenance or refactoring.''"
proof -
  have h: "map_sum id severity (analyze_error set_order code error_log) =
          Inr (case classification info of SYNTAX \<Rightarrow> CRITICAL | RUNTIME \<Rightarrow> HIGH
               | LOGICAL \<Rightarrow> MEDIUM | SEMANTIC \<Rightarrow> MEDIUM | UNKNOWN \<Rightarrow> MEDIUM)"
    if "ErrorLogAnalyzer_analyze set_order error_log = Inr info"
      and "StaticCodeAnalysis_analyze code info = Inr context"
      and "get_recommendation info context = None"
    using analyze_error_cases [OF that(1) that(2)] that(3)
    by (simp add: result_of_def heuristic_severity)
  have p: "priority_reasoning result = generate_priority_reasoning (severity result)"
    if "analyze_error set_order code error_log = Inr result"
    using that by (elim analyze_error_Inr) (simp add: result_of_def)
  have r: "generate_priority_reasoning CRITICAL = ''This error prevents code execution entirely and should be addressed immediately to restore functionality.''"
    "generate_priority_reasoning HIGH = ''This error causes program crashes and may lead to data loss, making it a high priority for resolution.''"
    "generate_priority_reasoning MEDIUM = ''This error may cause incorrect behavior under certain conditions and should be addressed in the next development cycle.''"
    "generate_priority_reasoning LOW = ''This is a code quality issue that can be addressed during routine maintenance or refactoring.''"
    by (simp_all add: generate_priority_reasoning_def reasoning_map_def py_dict_def)
  show ?thesis using heuristic_severity h p r by simp
qed

theorem severity_and_reasoning_fixed_witness:
  "map_sum id severity (analyze_error remdups ''x = 1'' ''error: missing ; at line 1'') = Inr CRITICAL
   \<and> map_sum id priority_reasoning (analyze_error remdups ''x = 1'' ''error: missing ; at line 1'') =
        Inr ''This error prevents code execution entirely and should be addressed immediately to restore functionality.''"
proof -
  let ?ei = "\<lparr>error_type = ''missing ;'', line_number = Some 1, variables = [],
              full_message = ''error: missing ; at line 1'', classification = SYNTAX\<rparr>"
  let ?ci = "\<lparr>language = ''unknown'', error_block = ''x = 1'', error_lines = [''x = 1''],
              intent = ''variable assignment''\<rparr>"
  let ?r = "result_of (analyze_complex_error ?ei ?ci)"
  have e: "ErrorLogAnalyzer_analyze remdups ''error: missing ; at line 1'' = Inr ?ei"
    by code_simp
  have c: "StaticCodeAnalysis_analyze ''x = 1'' ?ei = Inr ?ci"
    by code_simp
  have g: "get_recommendation ?ei ?ci = None"
    by (simp add: get_recommendation_def rules_eq)
  have a: "analyze_error remdups ''x = 1'' ''error: missing ; at line 1'' = Inr ?r"
    using analyze_error_cases [OF e c] g by simp
  have s: "map_sum id severity (analyze_error remdups ''x = 1'' ''error: missing ; at line 1'')
             = Inr CRITICAL"
    using severity_and_reasoning_fixed [of ?ei ?ci remdups "''error: missing ; at line 1''"
        ?ei "''x = 1''" ?ci ?r] e c g
    by simp
  then have "severity ?r = CRITICAL" by (simp add: a)
  moreover have "priority_reasoning ?r = generate_priority_reasoning (severity ?r)"
    using severity_and_reasoning_fixed [of ?ei ?ci remdups "''error: missing ; at line 1''"
        ?ei "''x = 1''" ?ci ?r] a
    by blast
  ultimately have "priority_reasoning ?r = generate_priority_reasoning CRITICAL"
    by (simp only:)
  then have "map_sum id priority_reasoning
               (analyze_error remdups ''x = 1'' ''error: missing ; at line 1'') =
        Inr ''This error prevents code execution entirely and should be addressed immediately to restore functionality.''"
    using severity_and_reasoning_fixed [of ?ei ?ci remdups "''error: missing ; at line 1''"
        ?ei "''x = 1''" ?ci ?r]
    by (simp only: a map_sum.simps)
  with s show ?thesis by blast
qed

text \<open>The impact of a catalog rule is never the sentence of the impact table for \<open>LOW\<close>.\<close>

lemma rules_impact:
  assumes "(k, r) \<in> set rules"
  shows "rec_impact r \<noteq> ''This is a minor issue that may affect code quality or performance.''"
  using assms
  by (auto simp: rules_eq rule_IndexError_python_def rule_NameError_python_def
      rule_SyntaxError_python_def rule_ZeroDivisionError_python_def
      rule_AttributeError_python_def rule_KeyError_python_def rule_RecursionError_python_def
      rule_RuntimeError_python_def rule_JSONDecodeError_python_def
      rule_NullPointerException_java_def)

lemma heuristic_impact:
  "rec_impact (analyze_complex_error error_info code_info)
     \<noteq> ''This is a minor issue that may affect code quality or performance.''"
  by (cases "classification error_info")
    (simp_all add: analyze_complex_error_def Let_def severity_map_eq assess_impact_def
      impact_map_def py_dict_def)

lemma reasoning_not_low:
  assumes "sev \<noteq> LOW"
  shows "generate_priority_reasoning sev
     \<noteq> ''This is a code quality issue that can be addressed during routine maintenance or refactoring.''"
  using assms
  by (cases sev) (simp_all add: generate_priority_reasoning_def reasoning_map_def py_dict_def)

text \<open>
  Claim C10: every result of the pipeline has severity \<open>CRITICAL\<close>, \<open>HIGH\<close> or \<open>MEDIUM\<close>,
  since no rule of the catalog and no classification gives \<open>LOW\<close>; so neither the
  sentence of the impact table nor that of the reasoning table for \<open>LOW\<close> is ever returned.
\<close>

theorem pipeline_severity_never_low:
  assumes "analyze_error set_order code error_log = Inr result"
  shows "(severity result = CRITICAL \<or> severity result = HIGH \<or> severity result = MEDIUM)
       \<and> impact result \<noteq> ''This is a minor issue that may affect code quality or performance.''
       \<and> priority_reasoning result
           \<noteq> ''This is a code quality issue that can be addressed during routine maintenance or refactoring.''"
proof -
  from assms obtain error_info code_info where
    r: "result = result_of (case get_recommendation error_info code_info of
                             Some r \<Rightarrow> r
                           | None \<Rightarrow> analyze_complex_error error_info code_info)"
    by (elim analyze_error_Inr)
  have p: "priority_reasoning result = generate_priority_reasoning (severity result)"
    using r by (simp add: result_of_def)
  have s: "(severity result = CRITICAL \<or> severity result = HIGH \<or> severity result = MEDIUM)
       \<and> impact result \<noteq> ''This is a minor issue that may affect code quality or performance.''"
  proof (cases "get_recommendation error_info code_info")
    case None
    then have e: "severity result = rec_severity (analyze_complex_error error_info code_info)"
      "impact result = rec_impact (analyze_complex_error error_info code_info)"
      using r by (simp_all add: result_of_def)
    have "severity result = CRITICAL \<or> severity result = HIGH \<or> severity result = MEDIUM"
      unfolding e(1) by (cases "classification error_info") (simp_all add: heuristic_severity)
    then show ?thesis using heuristic_impact e(2) by simp
  next
    case (Some t)
    then have m: "((error_type error_info, language code_info), t) \<in> set rules"
      by (simp add: get_recommendation_def map_of_SomeD)
    then have "rec_severity t = CRITICAL \<or> rec_severity t = HIGH"
      by (rule rules_severity)
    moreover have "rec_impact t
        \<noteq> ''This is a minor issue that may affect code quality or performance.''"
      using m by (rule rules_impact)
    ultimately show ?thesis using r Some by (auto simp: result_of_def)
  qed
  then have "severity result \<noteq> LOW" by auto
  then have "priority_reasoning result
      \<noteq> ''This is a code quality issue that can be addressed during routine maintenance or refactoring.''"
    unfolding p by (rule reasoning_not_low)
  with s show ?thesis by blast
qed

theorem pipeline_severity_never_low_witness:
  "analyze_error remdups ''def f():'' ''SyntaxError: invalid syntax'' =
     Inr (result_of rule_SyntaxError_python)
   \<and> severity (result_of rule_SyntaxError_python) = CRITICAL"
proof -
  have a: "analyze_error remdups ''def f():'' ''SyntaxError: invalid syntax'' =
     Inr (result_of rule_SyntaxError_python)"
    by code_simp
  have "severity (result_of rule_SyntaxError_python) \<noteq> HIGH"
    by code_simp
  moreover have "severity (result_of rule_SyntaxError_python) \<noteq> MEDIUM"
    by code_simp
  ultimately show ?thesis
    using pipeline_severity_never_low [OF a] a by blast
qed

section \<open>The log classifier\<close>










text \<open>The loop over the patterns passes every pattern that does not match.\<close>

lemma scan_patterns_unmatched:
  assumes "\<forall>(pattern, hint) \<in> set pre. rx_search True pattern s = None"
  shows "scan_patterns set_order (pre @ rest) s = scan_patterns set_order rest s"
  using assms by (induction pre) auto



text \<open>
  The dictionary of patterns as Python builds it: eleven patterns, the two that are
  written twice at their first place with their second value.
\<close>

lemma error_patterns_eq:
  "error_patterns =
     [(pat_error_at_line, ''javascript'', ''runtime''),
      (pat_error, ''python'', ''runtime''),
      (pat_exception, ''java'', ''runtime''),
      (pat_syntax_error, ''python'', ''syntax''),
      (pat_traceback, ''python'', ''runtime''),
      (pat_json, ''python'', ''runtime''),
      (pat_java_thread, ''java'', ''runtime''),
      (pat_reference_error, ''javascript'', ''runtime''),
      (pat_type_error, ''javascript'', ''runtime''),
      (pat_c_error, ''c'', ''syntax''),
      (pat_segfault, ''c'', ''runtime'')]"
  by code_simp

text \<open>
  The first pattern that matches decides, and two neighbouring patterns that never match
  the same log can change places.
\<close>

lemma scan_patterns_first_match:
  assumes "\<forall>(pattern, hint) \<in> set pre. rx_search True pattern s = None"
    and "rx_search True pattern s = Some (groups, after)"
  shows "scan_patterns set_order (pre @ (pattern, lang, cls) # rest) s =
           scan_patterns set_order [(pattern, lang, cls)] s"
proof -
  have "scan_patterns set_order (pre @ (pattern, lang, cls) # rest) s =
          scan_patterns set_order ((pattern, lang, cls) # rest) s"
    using assms(1) by (rule scan_patterns_unmatched)
  also have "\<dots> = scan_patterns set_order [(pattern, lang, cls)] s"
    using assms(2) by simp
  finally show ?thesis .
qed

lemma scan_patterns_swap:
  assumes "rx_search True p1 s = None \<or> rx_search True p2 s = None"
  shows "scan_patterns set_order (pre @ (p1, h1) # (p2, h2) # rest) s =
           scan_patterns set_order (pre @ (p2, h2) # (p1, h1) # rest) s"
proof (induction pre)
  case Nil
  show ?case using assms by (cases h1; cases h2) (auto split: option.splits)
next
  case (Cons a pre)
  then show ?case by (cases a) (auto split: option.splits)
qed

text \<open>
  Matching without the groups: \<open>rx_from\<close> finds a match exactly when \<open>accepts\<close> holds,
  and \<open>rx_search\<close> exactly when it holds at some position of the text.
\<close>

lemma rx_from_accepts: "(rx_from ic p s m gs \<noteq> None) = accepts ic p s"
  by (induction ic p s m gs rule: rx_from.induct) (auto split: option.splits)

lemma rx_search_accepts:
  "(rx_search ic p s \<noteq> None) = (\<exists>k\<le>length s. accepts ic p (drop k s))"
proof (induction s)
  case Nil
  then show ?case using rx_from_accepts [of ic p "[]" "[]" "[]"] by simp
next
  case (Cons c s)
  have "(\<exists>k\<le>length (c # s). accepts ic p (drop k (c # s)))
        = (accepts ic p (c # s) \<or> (\<exists>k\<le>length s. accepts ic p (drop k s)))"
  proof
    assume "\<exists>k\<le>length (c # s). accepts ic p (drop k (c # s))"
    then obtain k where k: "k \<le> length (c # s)" "accepts ic p (drop k (c # s))" by blast
    show "accepts ic p (c # s) \<or> (\<exists>k\<le>length s. accepts ic p (drop k s))"
    proof (cases k)
      case 0
      then show ?thesis using k by simp
    next
      case (Suc j)
      then have "j \<le> length s" "accepts ic p (drop j s)" using k by simp_all
      then show ?thesis by blast
    qed
  next
    assume "accepts ic p (c # s) \<or> (\<exists>k\<le>length s. accepts ic p (drop k s))"
    then show "\<exists>k\<le>length (c # s). accepts ic p (drop k (c # s))"
    proof
      assume "accepts ic p (c # s)"
      then have "0 \<le> length (c # s) \<and> accepts ic p (drop 0 (c # s))" by simp
      then show ?thesis by blast
    next
      assume "\<exists>k\<le>length s. accepts ic p (drop k s)"
      then obtain k where "k \<le> length s" "accepts ic p (drop k s)" by blast
      then have "Suc k \<le> length (c # s) \<and> accepts ic p (drop (Suc k) (c # s))" by simp
      then show ?thesis by blast
    qed
  qed
  moreover have "(rx_search ic p (c # s) \<noteq> None)
        = (accepts ic p (c # s) \<or> rx_search ic p s \<noteq> None)"
    using rx_from_accepts [of ic p "c # s" "c # s" "[]"] by (auto split: option.splits)
  ultimately show ?case using Cons.IH by simp
qed

lemma accepts_lit:
  "accepts ic (lit cs @ p) t =
     (\<exists>pre u. t = pre @ u \<and> list_all2 (\<lambda>c x. atom_ok ic (Ch c) x) cs pre \<and> accepts ic p u)"
proof (induction cs arbitrary: t)
  case Nil
  show ?case by (simp add: lit_def)
next
  case (Cons c cs)
  show ?case
  proof (cases t)
    case Nil
    then show ?thesis by (simp add: lit_def)
  next
    case (Cons x t')
    have "accepts ic (lit (c # cs) @ p) (x # t')
          = (atom_ok ic (Ch c) x \<and> accepts ic (lit cs @ p) t')"
      by (simp add: lit_def)
    also have "\<dots> = (atom_ok ic (Ch c) x \<and>
        (\<exists>pre u. t' = pre @ u \<and> list_all2 (\<lambda>c x. atom_ok ic (Ch c) x) cs pre \<and> accepts ic p u))"
      by (simp only: Cons.IH)
    also have "\<dots> = (\<exists>pre u. x # t' = pre @ u
          \<and> list_all2 (\<lambda>c x. atom_ok ic (Ch c) x) (c # cs) pre \<and> accepts ic p u)"
    proof
      assume "atom_ok ic (Ch c) x \<and>
        (\<exists>pre u. t' = pre @ u \<and> list_all2 (\<lambda>c x. atom_ok ic (Ch c) x) cs pre \<and> accepts ic p u)"
      then obtain pre u where "atom_ok ic (Ch c) x" "t' = pre @ u"
        "list_all2 (\<lambda>c x. atom_ok ic (Ch c) x) cs pre" "accepts ic p u" by blast
      then have "x # t' = (x # pre) @ u
          \<and> list_all2 (\<lambda>c x. atom_ok ic (Ch c) x) (c # cs) (x # pre) \<and> accepts ic p u"
        by simp
      then show "\<exists>pre u. x # t' = pre @ u
          \<and> list_all2 (\<lambda>c x. atom_ok ic (Ch c) x) (c # cs) pre \<and> accepts ic p u"
        by blast
    next
      assume "\<exists>pre u. x # t' = pre @ u
          \<and> list_all2 (\<lambda>c x. atom_ok ic (Ch c) x) (c # cs) pre \<and> accepts ic p u"
      then obtain pre u where a: "x # t' = pre @ u"
        "list_all2 (\<lambda>c x. atom_ok ic (Ch c) x) (c # cs) pre" "accepts ic p u" by blast
      from a(2) obtain y pre' where pre: "pre = y # pre'" "atom_ok ic (Ch c) y"
        "list_all2 (\<lambda>c x. atom_ok ic (Ch c) x) cs pre'"
        by (auto simp: list_all2_Cons1)
      with a(1) have "x = y" "t' = pre' @ u" by simp_all
      with pre a(3) show "atom_ok ic (Ch c) x \<and>
        (\<exists>pre u. t' = pre @ u \<and> list_all2 (\<lambda>c x. atom_ok ic (Ch c) x) cs pre \<and> accepts ic p u)"
        by blast
    qed
    finally show ?thesis using Cons by simp
  qed
qed

lemma accepts_star_words:
  assumes "list_all re_word ws" and "accepts ic q r"
  shows "accepts ic (Star Word # q) (ws @ r)"
  using assms
proof (induction ws)
  case Nil
  then show ?case by (cases r) simp_all
next
  case (Cons w ws)
  then show ?case by simp
qed

lemma re_word_lower: "re_word (py_lower_char c) = re_word c"
proof (cases c)
  case (Char b0 b1 b2 b3 b4 b5 b6 b7)
  show ?thesis
    unfolding Char py_lower_char_bits
    by (cases b0; cases b1; cases b2; cases b3; cases b4; cases b5; cases b6; cases b7;
        simp add: re_word_bits)
qed

lemma word_match:
  assumes "list_all2 (\<lambda>c x. atom_ok True (Ch c) x) cs xs" and "list_all re_word cs"
  shows "list_all re_word xs"
  using assms
proof (induction rule: list_all2_induct)
  case Nil
  then show ?case by simp
next
  case (Cons c cs x xs)
  then have "py_lower_char x = py_lower_char c" by simp
  then have "re_word x = re_word c"
    using re_word_lower [of x] re_word_lower [of c] by simp
  then show ?case using Cons by simp
qed

text \<open>
  Wherever the pattern for a syntax error with a line matches, the pattern for any error
  with a line, which stands first, matches too: the word before \<open>Error\<close> can be
  \<open>Syntax\<close>.
\<close>

lemma syntax_rule_shadowed_at:
  assumes "accepts True pat_syntax_error t"
  shows "accepts True pat_error_at_line t"
proof -
  define pat_tail where "pat_tail = grp [Plus Dot] @ lit '' at line '' @ grp [Plus Digit]"
  have ps: "pat_syntax_error = lit ''Syntax'' @ lit ''Error'' @ lit '': '' @ pat_tail"
    by (simp add: pat_syntax_error_def pat_tail_def lit_def)
  have pe: "pat_error_at_line
              = Open # Plus Word # lit ''Error'' @ Close # lit '': '' @ pat_tail"
    by (simp add: pat_error_at_line_def pat_tail_def grp_def)
  from assms obtain p1 u1 where 1: "t = p1 @ u1"
    "list_all2 (\<lambda>c x. atom_ok True (Ch c) x) ''Syntax'' p1"
    "accepts True (lit ''Error'' @ lit '': '' @ pat_tail) u1"
    unfolding ps accepts_lit [of True "''Syntax''"] by blast
  from 1(3) obtain p2 u2 where 2: "u1 = p2 @ u2"
    "list_all2 (\<lambda>c x. atom_ok True (Ch c) x) ''Error'' p2"
    "accepts True (lit '': '' @ pat_tail) u2"
    unfolding accepts_lit [of True "''Error''"] by blast
  have w: "list_all re_word p1"
    using 1(2) by (rule word_match) code_simp
  from 1(2) obtain x ws where p1: "p1 = x # ws"
    by (cases p1) auto
  have "accepts True (Close # lit '': '' @ pat_tail) u2"
    using 2(3) by simp
  then have "accepts True (lit ''Error'' @ Close # lit '': '' @ pat_tail) (p2 @ u2)"
    unfolding accepts_lit [of True "''Error''"] using 2(2) by blast
  then have "accepts True (Star Word # lit ''Error'' @ Close # lit '': '' @ pat_tail)
               (ws @ p2 @ u2)"
    using w p1 by (intro accepts_star_words) simp_all
  then have "accepts True (Open # Plus Word # lit ''Error'' @ Close # lit '': '' @ pat_tail)
               (x # ws @ p2 @ u2)"
    using w p1 by simp
  then show ?thesis
    unfolding pe using 1(1) 2(1) p1 by simp
qed

lemma syntax_rule_shadowed:
  assumes "rx_search True pat_syntax_error s \<noteq> None"
  shows "rx_search True pat_error_at_line s \<noteq> None"
  using assms unfolding rx_search_accepts
  by (blast intro: syntax_rule_shadowed_at)

text \<open>A pattern that only matches where an earlier one does can be left out.\<close>

lemma scan_patterns_dead_rule:
  assumes "rx_search True p s \<noteq> None \<longrightarrow>
             (\<exists>(q, h) \<in> set pre. rx_search True q s \<noteq> None)"
  shows "scan_patterns set_order (pre @ (p, hint) # rest) s =
           scan_patterns set_order (pre @ rest) s"
  using assms
proof (induction pre)
  case Nil
  then have "rx_search True p s = None" by (cases "rx_search True p s") auto
  then show ?case by (cases hint) simp
next
  case (Cons a pre)
  obtain q l c where a: "a = (q, l, c)" by (cases a)
  show ?case
  proof (cases "rx_search True q s")
    case None
    then have "rx_search True p s \<noteq> None \<longrightarrow>
             (\<exists>(q, h) \<in> set pre. rx_search True q s \<noteq> None)"
      using Cons.prems a by auto
    then show ?thesis using Cons.IH None a by simp
  next
    case (Some r)
    then show ?thesis using a by (cases r) simp
  qed
qed

text \<open>
  So the pattern for a syntax error with a line, the fourth, decides no log at all:
  \<open>analyze\<close> is the loop over the other ten patterns.
\<close>

lemma syntax_rule_never_decides:
  "ErrorLogAnalyzer_analyze set_order error_log =
     scan_patterns set_order
       [(pat_error_at_line, ''javascript'', ''runtime''),
        (pat_error, ''python'', ''runtime''),
        (pat_exception, ''java'', ''runtime''),
        (pat_traceback, ''python'', ''runtime''),
        (pat_json, ''python'', ''runtime''),
        (pat_java_thread, ''java'', ''runtime''),
        (pat_reference_error, ''javascript'', ''runtime''),
        (pat_type_error, ''javascript'', ''runtime''),
        (pat_c_error, ''c'', ''syntax''),
        (pat_segfault, ''c'', ''runtime'')]
       (py_strip error_log)"
proof -
  let ?pre = "[(pat_error_at_line, ''javascript'', ''runtime''),
        (pat_error, ''python'', ''runtime''),
        (pat_exception, ''java'', ''runtime'')]"
  let ?rest = "[(pat_traceback, ''python'', ''runtime''),
        (pat_json, ''python'', ''runtime''),
        (pat_java_thread, ''java'', ''runtime''),
        (pat_reference_error, ''javascript'', ''runtime''),
        (pat_type_error, ''javascript'', ''runtime''),
        (pat_c_error, ''c'', ''syntax''),
        (pat_segfault, ''c'', ''runtime'')]"
  have d: "rx_search True pat_syntax_error (py_strip error_log) \<noteq> None \<longrightarrow>
             (\<exists>(q, h) \<in> set ?pre. rx_search True q (py_strip error_log) \<noteq> None)"
    using syntax_rule_shadowed [of "py_strip error_log"] by simp
  have "scan_patterns set_order (?pre @ (pat_syntax_error, ''python'', ''syntax'') # ?rest)
          (py_strip error_log)
        = scan_patterns set_order (?pre @ ?rest) (py_strip error_log)"
    using d by (rule scan_patterns_dead_rule)
  then show ?thesis
    by (simp add: ErrorLogAnalyzer_analyze_def error_patterns_eq)
qed

text \<open>
  Claim C2, at the log \<open>SyntaxError: invalid syntax at line 5\<close>: the pattern for a
  syntax error with a line matches it and alone gives the error type \<open>invalid syntax\<close>
  and the classification \<open>SYNTAX\<close>, the generic pattern matches it too, and \<open>analyze\<close>
  returns the error type \<open>SyntaxError\<close> and the classification \<open>RUNTIME\<close> of a pattern
  that stands before both.
\<close>

theorem syntax_error_log_not_decided_by_its_rule:
  "ErrorLogAnalyzer_analyze set_order ''SyntaxError: invalid syntax at line 5'' =
     Inr \<lparr>error_type = ''SyntaxError'', line_number = Some 5, variables = set_order [],
          full_message = ''SyntaxError: invalid syntax at line 5'',
          classification = RUNTIME\<rparr>
   \<and> scan_patterns set_order [(pat_syntax_error, ''python'', ''syntax'')]
         ''SyntaxError: invalid syntax at line 5'' =
       Inr \<lparr>error_type = ''invalid syntax'', line_number = Some 5, variables = set_order [],
            full_message = ''SyntaxError: invalid syntax at line 5'',
            classification = SYNTAX\<rparr>
   \<and> rx_search True pat_error ''SyntaxError: invalid syntax at line 5'' =
       Some ([''SyntaxError'', ''invalid syntax at line 5''], [])
   \<and> rx_search True pat_error_at_line ''SyntaxError: invalid syntax at line 5'' =
       Some ([''SyntaxError'', ''invalid syntax'', ''5''], [])"
  by code_simp

text \<open>
  On a log that a pattern matches, \<open>analyze\<close> can raise: \<open>isdigit\<close> accepts a superscript
  digit, and \<open>int\<close> does not.
\<close>

lemma analyze_raises_on_superscript_digit:
  "ErrorLogAnalyzer_analyze set_order (''ValueError: '' @ [CHR 0xB2]) = Inl ValueError"
  by code_simp

text \<open>
  Claim C1, as amended: for the log \<open>CustomWeirdError: something broke\<close> and any code,
  the generic pattern for an error with a message matches, so the classification is
  \<open>RUNTIME\<close>. The catalog has no rule for the error type in any language, the pipeline
  takes the heuristic path, the severity is \<open>HIGH\<close>, and the explanation names the error
  type and the detected language.
\<close>

theorem custom_weird_error_is_runtime:
  "ErrorLogAnalyzer_analyze set_order ''CustomWeirdError: something broke'' =
     Inr \<lparr>error_type = ''CustomWeirdError'', line_number = None, variables = set_order [],
          full_message = ''CustomWeirdError: something broke'', classification = RUNTIME\<rparr>
   \<and> get_recommendation
         \<lparr>error_type = ''CustomWeirdError'', line_number = None, variables = set_order [],
          full_message = ''CustomWeirdError: something broke'', classification = RUNTIME\<rparr>
         code_info = None
   \<and> (\<exists>result. analyze_error set_order code ''CustomWeirdError: something broke'' = Inr result
         \<and> severity result = HIGH
         \<and> explanation result =
             ''A '' @ ''CustomWeirdError'' @ '' occurred''
             @ (let i = determine_code_intent (take 200 code) (detect_language code)
                in if i = ''loop'' then '' within a loop structure''
                   else if i = ''function definition'' then '' in a function definition''
                   else if i = ''variable assignment'' then '' during variable assignment''
                   else [])
             @ ''. This is a runtime error that occurs during program execution''
             @ '' in '' @ detect_language code @ '' code.'')"
proof -
  let ?ei = "\<lparr>error_type = ''CustomWeirdError'', line_number = None, variables = set_order [],
          full_message = ''CustomWeirdError: something broke'', classification = RUNTIME\<rparr>"
  let ?ci = "\<lparr>language = detect_language code, error_block = take 200 code,
          error_lines = [hd (split_nl code)],
          intent = determine_code_intent (take 200 code) (detect_language code)\<rparr>"
  have e: "ErrorLogAnalyzer_analyze set_order ''CustomWeirdError: something broke'' = Inr ?ei"
    by code_simp
  have c: "StaticCodeAnalysis_analyze code ?ei = Inr ?ci"
    by (rule analyze_without_line) (simp add: no_line_def)
  have g: "get_recommendation ?ei ci = None" for ci
    by (simp add: get_recommendation_def rules_eq)
  have a: "analyze_error set_order code ''CustomWeirdError: something broke'' =
             Inr (result_of (analyze_complex_error ?ei ?ci))"
    using analyze_error_cases [OF e c] g by simp
  have s: "severity (result_of (analyze_complex_error ?ei ?ci)) = HIGH"
    by (simp add: result_of_def heuristic_severity)
  have x: "explanation (result_of (analyze_complex_error ?ei ?ci)) =
             ''A '' @ ''CustomWeirdError'' @ '' occurred''
             @ (let i = determine_code_intent (take 200 code) (detect_language code)
                in if i = ''loop'' then '' within a loop structure''
                   else if i = ''function definition'' then '' in a function definition''
                   else if i = ''variable assignment'' then '' during variable assignment''
                   else [])
             @ ''. This is a runtime error that occurs during program execution''
             @ '' in '' @ detect_language code @ '' code.''"
    by (simp add: result_of_def analyze_complex_error_def generate_explanation_def
        no_line_def Let_def)
  show ?thesis using e g a s x by blast
qed

text \<open>
  The claim as the specification states it fails: the severity for this log is \<open>HIGH\<close>,
  not \<open>MEDIUM\<close>.
\<close>

theorem custom_weird_error_not_medium:
  "map_sum id severity (analyze_error remdups ''x = 1'' ''CustomWeirdError: something broke'')
     = Inr HIGH
   \<and> map_sum id severity (analyze_error remdups ''x = 1'' ''CustomWeirdError: something broke'')
       \<noteq> Inr MEDIUM"
  by code_simp

end
